theory Spec2Isabelle
  imports Complex_Main
begin

section \<open>Text classification models (network/model.py)\<close>

text \<open>
  The models of \<^verbatim>\<open>network/model.py\<close> are embedded as functions on nested lists:
  a token-id batch of shape (batch_size, max_seq_len) is the list of its rows, a real
  tensor of shape (batch_size, len, dim) is a list of sequences of feature vectors.
  Tensor entries are real numbers; rounding of floating-point arithmetic is not part of
  the model. A batch is the list of its examples, so a batch without examples carries no
  width. Each forward pass is the inference-mode computation (dropout inactive).
  Every failure that the tensor library raises is a value of type \<open>error\<close>.
\<close>

subsection \<open>Errors\<close>

datatype error =
    IndexError   \<comment> \<open>index out of range (embedding lookup, indexing, reduction over an empty axis)\<close>
  | SizeError    \<comment> \<open>convolution window larger than the (padded) input\<close>
  | ShapeError   \<comment> \<open>feature widths or tensor sizes that do not match\<close>

definition and_then :: "error + 'a \<Rightarrow> ('a \<Rightarrow> error + 'b) \<Rightarrow> error + 'b" where
  "and_then r f = (case r of Inl e \<Rightarrow> Inl e | Inr v \<Rightarrow> f v)"

text \<open>An operation applied along the batch axis (or the sequence axis); the first failure
  is the failure of the whole operation.\<close>

fun map_err :: "('a \<Rightarrow> error + 'b) \<Rightarrow> 'a list \<Rightarrow> error + 'b list" where
  "map_err f [] = Inr []"
| "map_err f (x # xs) =
     (case f x of
        Inl e \<Rightarrow> Inl e
      | Inr y \<Rightarrow> (case map_err f xs of Inl e \<Rightarrow> Inl e | Inr ys \<Rightarrow> Inr (y # ys)))"

subsection \<open>Tensors\<close>

type_synonym vec = "real list"

type_synonym mat = "real list list"

type_synonym tensor3 = "real list list list"

text \<open>\<^verbatim>\<open>batch_size, max_len = x.shape\<close>\<close>

definition shape0 :: "'a list list \<Rightarrow> nat" where
  "shape0 x = length x"

definition shape1 :: "'a list list \<Rightarrow> nat" where
  "shape1 x = (case x of [] \<Rightarrow> 0 | r # _ \<Rightarrow> length r)"

text \<open>A tensor of shape (n, d): n rows, each of width d.\<close>

definition has_shape :: "'a list list \<Rightarrow> nat \<Rightarrow> nat \<Rightarrow> bool" where
  "has_shape x n d = (length x = n \<and> list_all (\<lambda>r. length r = d) x)"

text \<open>A tensor of shape (b, n, d): b sequences of n vectors of width d.\<close>

definition has_shape3 :: "'a list list list \<Rightarrow> nat \<Rightarrow> nat \<Rightarrow> nat \<Rightarrow> bool" where
  "has_shape3 t b n d = (length t = b \<and> list_all (\<lambda>s. has_shape s n d) t)"

definition dot :: "vec \<Rightarrow> vec \<Rightarrow> real" where
  "dot u v = sum_list (map2 (*) u v)"

text \<open>\<^verbatim>\<open>F.relu\<close>, \<^verbatim>\<open>.tanh()\<close>: elementwise on a (batch, len, dim) tensor.\<close>

definition relu :: "tensor3 \<Rightarrow> tensor3" where
  "relu x = map (map (map (max 0))) x"

definition relu2 :: "mat \<Rightarrow> mat" where
  "relu2 x = map (map (max 0)) x"

definition tanh3 :: "tensor3 \<Rightarrow> tensor3" where
  "tanh3 x = map (map (map tanh)) x"

text \<open>\<^verbatim>\<open>torch.max(x, dim=1)\<close> (the values): the maximum over the positions of each
  example, feature by feature. A reduction over an axis of size zero raises.\<close>

definition max_seq :: "mat \<Rightarrow> error + vec" where
  "max_seq s = (case s of [] \<Rightarrow> Inl IndexError | v # vs \<Rightarrow> Inr (foldl (map2 max) v vs))"

definition torch_max :: "tensor3 \<Rightarrow> error + mat" where
  "torch_max x = map_err max_seq x"

text \<open>\<^verbatim>\<open>torch.cat([a, b], dim=-1)\<close> on (batch, len, dim) tensors: all axes but the last
  must agree.\<close>

definition cat_seq :: "mat \<Rightarrow> mat \<Rightarrow> error + mat" where
  "cat_seq a b = (if length a = length b then Inr (map2 (@) a b) else Inl ShapeError)"

definition torch_cat :: "tensor3 \<Rightarrow> tensor3 \<Rightarrow> error + tensor3" where
  "torch_cat a b =
     (if length a = length b then map_err (\<lambda>(s, t). cat_seq s t) (zip a b)
      else Inl ShapeError)"

text \<open>\<^verbatim>\<open>torch.cat([f1, f2, f3], -1)\<close> on (batch, dim) matrices.\<close>

definition torch_cat3 :: "mat \<Rightarrow> mat \<Rightarrow> mat \<Rightarrow> error + mat" where
  "torch_cat3 a b c =
     (if length a = length b \<and> length b = length c
      then Inr (map (\<lambda>(u, v, w). u @ v @ w) (zip a (zip b c)))
      else Inl ShapeError)"

text \<open>\<^verbatim>\<open>x + emb\<close> on two (batch, len, dim) tensors of the same shape (broadcasting of
  axes of size one is not modelled: both operands come from length-preserving layers).\<close>

definition add_seq :: "mat \<Rightarrow> mat \<Rightarrow> error + mat" where
  "add_seq a b =
     (if map length a = map length b then Inr (map2 (map2 (+)) a b) else Inl ShapeError)"

definition torch_add :: "tensor3 \<Rightarrow> tensor3 \<Rightarrow> error + tensor3" where
  "torch_add a b =
     (if length a = length b then map_err (\<lambda>(s, t). add_seq s t) (zip a b)
      else Inl ShapeError)"

text \<open>Indexing along an axis of size n with an integer index: an index j with
  \<open>-n \<le> j < n\<close> is accepted and a negative one counts from the end; any other index
  raises.\<close>

definition index_seq :: "'a list \<Rightarrow> int \<Rightarrow> error + 'a" where
  "index_seq s j =
     (let n = int (length s)
      in if - n \<le> j \<and> j < n then Inr (s ! nat (if j < 0 then j + n else j))
         else Inl IndexError)"

text \<open>\<^verbatim>\<open>x[rows, idx, :]\<close> with two index vectors of the same length: entry k of the
  result is \<open>x[rows[k], idx[k], :]\<close>.\<close>

definition gather :: "tensor3 \<Rightarrow> int list \<Rightarrow> int list \<Rightarrow> error + mat" where
  "gather x rows idx =
     (if length rows = length idx
      then map_err (\<lambda>(i, j). and_then (index_seq x i) (\<lambda>s. index_seq s j)) (zip rows idx)
      else Inl ShapeError)"

text \<open>\<^verbatim>\<open>torch.arange(n)\<close>\<close>

definition arange :: "nat \<Rightarrow> int list" where
  "arange n = map int [0..<n]"

subsection \<open>The sequence-length calculator\<close>

text \<open>\<^verbatim>\<open>max_seq_len - (x == padding_id).sum(dim=-1)\<close>\<close>

definition cal_seq_len :: "int list list \<Rightarrow> int \<Rightarrow> int \<Rightarrow> int list" where
  "cal_seq_len x max_seq_len padding_id =
     map (\<lambda>row. max_seq_len - int (length (filter (\<lambda>t. t = padding_id) row))) x"

subsection \<open>Configuration\<close>

record config =
  vocab :: nat
  embed_dim :: nat
  hidden_dim :: nat
  tag_dim :: nat
  padding_id :: int
  n_layer :: nat
  dropout :: real
  attn_dim :: nat
  n_block :: int

subsection \<open>Layers of the tensor library\<close>

text \<open>\<^verbatim>\<open>nn.Embedding(vocab, embed_dim, padding_idx)\<close>: a table with one row per token id.
  A token id outside \<open>[0, vocab)\<close> raises. The padding index plays no part in the
  lookup.\<close>

record Embedding =
  emb_weight :: mat
  emb_padding_idx :: int

definition Embedding_init :: "nat \<Rightarrow> nat \<Rightarrow> int \<Rightarrow> Embedding \<Rightarrow> bool" where
  "Embedding_init n d p e = (has_shape (emb_weight e) n d \<and> emb_padding_idx e = p)"

definition Embedding_lookup :: "Embedding \<Rightarrow> int \<Rightarrow> error + vec" where
  "Embedding_lookup e t =
     (if 0 \<le> t \<and> t < int (length (emb_weight e)) then Inr (emb_weight e ! nat t)
      else Inl IndexError)"

definition Embedding_forward :: "Embedding \<Rightarrow> int list list \<Rightarrow> error + tensor3" where
  "Embedding_forward e x = map_err (map_err (Embedding_lookup e)) x"

text \<open>\<^verbatim>\<open>nn.Linear(in_features, out_features)\<close>: one weight row and one bias per output
  feature; an input whose last axis is not \<open>in_features\<close> wide raises.\<close>

record Linear =
  lin_in :: nat
  lin_weight :: mat
  lin_bias :: vec

definition Linear_init :: "nat \<Rightarrow> nat \<Rightarrow> Linear \<Rightarrow> bool" where
  "Linear_init i out l =
     (lin_in l = i \<and> has_shape (lin_weight l) out i \<and> length (lin_bias l) = out)"

definition Linear_vec :: "Linear \<Rightarrow> vec \<Rightarrow> error + vec" where
  "Linear_vec l v =
     (if length v = lin_in l then Inr (map2 (\<lambda>w b. dot w v + b) (lin_weight l) (lin_bias l))
      else Inl ShapeError)"

text \<open>On a (batch, dim) matrix and on a (batch, len, dim) tensor.\<close>

definition Linear_forward :: "Linear \<Rightarrow> mat \<Rightarrow> error + mat" where
  "Linear_forward l x = map_err (Linear_vec l) x"

definition Linear_forward3 :: "Linear \<Rightarrow> tensor3 \<Rightarrow> error + tensor3" where
  "Linear_forward3 l x = map_err (map_err (Linear_vec l)) x"

subsection \<open>Layers of network/layer.py\<close>

text \<open>
  Modelled from the spec: \<^verbatim>\<open>LSTMLayer(in_dim, out_dim, n_layer, dropout, bi)\<close> of
  network/layer.py, which is not part of the sources. The spec describes it as a
  "recurrent encoder (uni/bi-directional)" that "contextualizes embeddings via sequential
  state", "single/multi-layer" and run "over the full padded sequence", with, when
  bidirectional, "forward/backward halves ... concatenated". The recurrent cell is an
  internal kernel of the tensor library and stays a parameter: a cell maps the state
  (hidden vector, memory vector) and one input vector to the next state. A direction
  starts from the zero state and emits the hidden vector after every position; the
  backward direction reads the sequence from its end. Each stacked layer reads the
  output of the one below.
\<close>

type_synonym cell = "vec \<times> vec \<Rightarrow> vec \<Rightarrow> vec \<times> vec"

record LSTMLayer =
  lstm_in :: nat
  lstm_hid :: nat
  lstm_bi :: bool
  lstm_cells :: "(cell \<times> cell) list"

text \<open>Modelled from the spec: one direction of the absent LSTMLayer, "sequential state"
  carried from position to position; the hidden vector of every position is emitted.\<close>

fun scan_cell :: "cell \<Rightarrow> vec \<times> vec \<Rightarrow> mat \<Rightarrow> mat" where
  "scan_cell f s [] = []"
| "scan_cell f s (x # xs) = fst (f s x) # scan_cell f (f s x) xs"

text \<open>Modelled from the spec: one stacked layer of the absent LSTMLayer, unidirectional,
  or bidirectional with the two directions "concatenated" position by position.\<close>

definition run_layer :: "nat \<Rightarrow> bool \<Rightarrow> mat \<Rightarrow> cell \<times> cell \<Rightarrow> mat" where
  "run_layer hid bi xs fb =
     (let s0 = (replicate hid 0, replicate hid 0);
          fw = scan_cell (fst fb) s0 xs
      in if bi then map2 (@) fw (rev (scan_cell (snd fb) s0 (rev xs))) else fw)"

text \<open>Modelled from the spec: the forward pass of the absent LSTMLayer on the sequence of
  one example, and on a batch. An input of another width than \<open>in_dim\<close> raises.\<close>

definition LSTMLayer_seq :: "LSTMLayer \<Rightarrow> mat \<Rightarrow> error + mat" where
  "LSTMLayer_seq l xs =
     (if list_all (\<lambda>v. length v = lstm_in l) xs
      then Inr (foldl (run_layer (lstm_hid l) (lstm_bi l)) xs (lstm_cells l))
      else Inl ShapeError)"

definition LSTMLayer_forward :: "LSTMLayer \<Rightarrow> tensor3 \<Rightarrow> error + tensor3" where
  "LSTMLayer_forward l x = map_err (LSTMLayer_seq l) x"

text \<open>Modelled from the spec: what the constructor of the absent LSTMLayer fixes, namely
  the widths, the direction, at least one stacked layer, and cells that emit hidden
  vectors of the layer's width.\<close>

definition cell_ok :: "nat \<Rightarrow> cell \<Rightarrow> bool" where
  "cell_ok hid f = (\<forall>s v. length (fst (f s v)) = hid)"

definition LSTMLayer_init :: "nat \<Rightarrow> nat \<Rightarrow> nat \<Rightarrow> bool \<Rightarrow> LSTMLayer \<Rightarrow> bool" where
  "LSTMLayer_init i out n bi l =
     (lstm_in l = i \<and> lstm_hid l = out \<and> lstm_bi l = bi \<and> 0 < n \<and>
      length (lstm_cells l) = n \<and>
      (\<forall>fb \<in> set (lstm_cells l). cell_ok out (fst fb) \<and> cell_ok out (snd fb)))"

text \<open>
  Modelled from the spec: \<^verbatim>\<open>CNNLayer(in_dim, out_dim, win, pad)\<close> of network/layer.py,
  which is not part of the sources. The spec describes it as a convolution that
  "extract[s] local n-gram features via sliding windows", with output length
  "input_len - window + 1" when unpadded, and "window size 4 requires input length
  \<ge> 4; shorter sequences fail with a dimension/size error". The sequence is extended by
  \<open>pad\<close> zero vectors at both ends; every window of \<open>win\<close> consecutive positions gives
  one output position, each output feature being the sum of the dot products of its
  kernel rows with the window's vectors plus its bias.
\<close>

record CNNLayer =
  cnn_in :: nat
  cnn_win :: nat
  cnn_pad :: nat
  cnn_weight :: tensor3
  cnn_bias :: vec

text \<open>Modelled from the spec: the "sliding windows" of the absent CNNLayer, one per output
  position, and the features of one window.\<close>

definition windows :: "nat \<Rightarrow> 'a list \<Rightarrow> 'a list list" where
  "windows k xs = map (\<lambda>t. take k (drop t xs)) [0..<length xs + 1 - k]"

definition conv_at :: "CNNLayer \<Rightarrow> mat \<Rightarrow> vec" where
  "conv_at l w =
     map2 (\<lambda>ker b. sum_list (map2 dot ker w) + b) (cnn_weight l) (cnn_bias l)"

text \<open>Modelled from the spec: the forward pass of the absent CNNLayer on the sequence of
  one example, and on a batch. A window wider than the padded sequence raises the size
  error; otherwise the output has "input_len - window + 1" positions, counted on the
  padded sequence.\<close>

definition CNNLayer_seq :: "CNNLayer \<Rightarrow> mat \<Rightarrow> error + mat" where
  "CNNLayer_seq l xs =
     (if \<not> list_all (\<lambda>v. length v = cnn_in l) xs then Inl ShapeError
      else let p = replicate (cnn_pad l) (replicate (cnn_in l) 0);
               xp = p @ xs @ p
           in if length xp < cnn_win l then Inl SizeError
              else Inr (map (conv_at l) (windows (cnn_win l) xp)))"

definition CNNLayer_forward :: "CNNLayer \<Rightarrow> tensor3 \<Rightarrow> error + tensor3" where
  "CNNLayer_forward l x = map_err (CNNLayer_seq l) x"

text \<open>Modelled from the spec: what the constructor of the absent CNNLayer fixes, namely the
  widths, the window and the padding, with kernels and biases of matching sizes.\<close>

definition CNNLayer_init :: "nat \<Rightarrow> nat \<Rightarrow> nat \<Rightarrow> nat \<Rightarrow> CNNLayer \<Rightarrow> bool" where
  "CNNLayer_init i out win pad l =
     (cnn_in l = i \<and> cnn_win l = win \<and> cnn_pad l = pad \<and>
      length (cnn_weight l) = out \<and> length (cnn_bias l) = out \<and>
      list_all (\<lambda>ker. has_shape ker win i) (cnn_weight l))"

text \<open>
  Modelled from the spec: the default window and padding of \<^verbatim>\<open>CNNLayer(in_dim, out_dim)\<close>
  are set in network/layer.py. The spec says the "convolution uses default padding", and
  model.py notes the output shape (batch_size, max_seq_len, hidden_dim): the default
  convolution keeps the length, that is, the window is \<open>2 * pad + 1\<close> wide.
\<close>

definition CNNLayer_init_default :: "nat \<Rightarrow> nat \<Rightarrow> CNNLayer \<Rightarrow> bool" where
  "CNNLayer_init_default i out l = CNNLayer_init i out (2 * cnn_pad l + 1) (cnn_pad l) l"

text \<open>
  Modelled from the spec: \<^verbatim>\<open>AttnLayer(in_dim, attn_dim)\<close> of network/layer.py, which is not
  part of the sources. The spec describes it as "attention pooling: computes a learned
  weighted summary of a sequence of vectors", "producing a single weighted-sum vector per
  example". The learned scoring that yields one weight per position stays a parameter;
  the layer returns the weighted sum of the position vectors.
\<close>

record AttnLayer =
  attn_in :: nat
  attn_weights :: "mat \<Rightarrow> vec"

text \<open>Modelled from the spec: the forward pass of the absent AttnLayer on the sequence of
  one example, the "weighted-sum vector", and on a batch.\<close>

definition AttnLayer_seq :: "AttnLayer \<Rightarrow> mat \<Rightarrow> error + vec" where
  "AttnLayer_seq l xs =
     (if list_all (\<lambda>v. length v = attn_in l) xs
      then Inr (foldr (\<lambda>(w, v) acc. map2 (+) (map ((*) w) v) acc)
                  (zip (attn_weights l xs) xs) (replicate (attn_in l) 0))
      else Inl ShapeError)"

definition AttnLayer_forward :: "AttnLayer \<Rightarrow> tensor3 \<Rightarrow> error + mat" where
  "AttnLayer_forward l x = map_err (AttnLayer_seq l) x"

text \<open>Modelled from the spec: what the constructor of the absent AttnLayer fixes for the
  shapes, namely the input width.\<close>

definition AttnLayer_init :: "nat \<Rightarrow> nat \<Rightarrow> AttnLayer \<Rightarrow> bool" where
  "AttnLayer_init i a l = (attn_in l = i)"

text \<open>
  Modelled from the spec: \<^verbatim>\<open>CNNBlock()\<close> of network/layer.py, which is not part of the
  sources. The spec describes a pyramid block as "downsampling (e.g., stride-2 pooling)
  plus convolution, halving sequence length each time" and leaves its exact arithmetic
  open, so a block stays a parameter: any function from the sequence of an example to a
  sequence, or to a failure.
\<close>

type_synonym CNNBlock = "mat \<Rightarrow> error + mat"

text \<open>\<^verbatim>\<open>nn.Sequential\<close> feeds the output of each block to the next one; with no block it
  returns its input.\<close>

definition Sequential_forward :: "CNNBlock list \<Rightarrow> tensor3 \<Rightarrow> error + tensor3" where
  "Sequential_forward bs x = foldl (\<lambda>r b. and_then r (map_err b)) (Inr x) bs"

subsection \<open>LSTMModel\<close>

record LSTMModel =
  lm_embedding :: Embedding
  lm_lstm :: LSTMLayer
  lm_linear :: Linear
  lm_padding_id :: int

text \<open>\<^verbatim>\<open>LSTMModel.__init__\<close>: the layers for a configuration (the direction flag of
  \<^verbatim>\<open>LSTMLayer\<close> is left at its default; the spec calls this encoder unidirectional).\<close>

definition LSTMModel_init :: "config \<Rightarrow> LSTMModel \<Rightarrow> bool" where
  "LSTMModel_init c m =
     (Embedding_init (vocab c) (embed_dim c) (padding_id c) (lm_embedding m) \<and>
      LSTMLayer_init (embed_dim c) (hidden_dim c) (n_layer c) False (lm_lstm m) \<and>
      Linear_init (hidden_dim c) (tag_dim c) (lm_linear m) \<and>
      lm_padding_id m = padding_id c)"

text \<open>Lines 33 to 40 of \<^verbatim>\<open>LSTMModel.forward\<close>: the vectors selected for the linear
  head.\<close>

definition LSTMModel_select :: "LSTMModel \<Rightarrow> int list list \<Rightarrow> error + mat" where
  "LSTMModel_select m x =
     (let batch_size = shape0 x; max_len = shape1 x;
          lens = cal_seq_len x (int max_len) (lm_padding_id m)
      in and_then (Embedding_forward (lm_embedding m) x) (\<lambda>x.
         and_then (LSTMLayer_forward (lm_lstm m) x) (\<lambda>x.
         gather x (arange batch_size) (map (\<lambda>n. n - 1) lens))))"

definition LSTMModel_forward :: "LSTMModel \<Rightarrow> int list list \<Rightarrow> error + mat" where
  "LSTMModel_forward m x =
     and_then (LSTMModel_select m x) (\<lambda>x. Linear_forward (lm_linear m) x)"

subsection \<open>RCNNModel\<close>

record RCNNModel =
  rc_embedding :: Embedding
  rc_bilstm :: LSTMLayer
  rc_encoder :: Linear
  rc_linear :: Linear

definition RCNNModel_init :: "config \<Rightarrow> RCNNModel \<Rightarrow> bool" where
  "RCNNModel_init c m =
     (Embedding_init (vocab c) (embed_dim c) (padding_id c) (rc_embedding m) \<and>
      LSTMLayer_init (embed_dim c) (embed_dim c div 2) 1 True (rc_bilstm m) \<and>
      Linear_init (2 * embed_dim c) (hidden_dim c) (rc_encoder m) \<and>
      Linear_init (hidden_dim c) (tag_dim c) (rc_linear m))"

definition RCNNModel_forward :: "RCNNModel \<Rightarrow> int list list \<Rightarrow> error + mat" where
  "RCNNModel_forward m x =
     and_then (Embedding_forward (rc_embedding m) x) (\<lambda>word.
     and_then (LSTMLayer_forward (rc_bilstm m) word) (\<lambda>context.
     and_then (torch_cat word context) (\<lambda>x.
     and_then (Linear_forward3 (rc_encoder m) x) (\<lambda>x.
     and_then (torch_max (tanh3 x)) (\<lambda>x.
     Linear_forward (rc_linear m) x)))))"

subsection \<open>BiLSTMAttnModel\<close>

record BiLSTMAttnModel =
  ba_embedding :: Embedding
  ba_bilstm :: LSTMLayer
  ba_attn :: AttnLayer
  ba_linear :: Linear
  ba_padding_id :: int

definition BiLSTMAttnModel_init :: "config \<Rightarrow> BiLSTMAttnModel \<Rightarrow> bool" where
  "BiLSTMAttnModel_init c m =
     (Embedding_init (vocab c) (embed_dim c) (padding_id c) (ba_embedding m) \<and>
      LSTMLayer_init (embed_dim c) (hidden_dim c div 2) 1 True (ba_bilstm m) \<and>
      AttnLayer_init (hidden_dim c) (attn_dim c) (ba_attn m) \<and>
      Linear_init (hidden_dim c) (tag_dim c) (ba_linear m) \<and>
      ba_padding_id m = padding_id c)"

definition BiLSTMAttnModel_forward :: "BiLSTMAttnModel \<Rightarrow> int list list \<Rightarrow> error + mat" where
  "BiLSTMAttnModel_forward m x =
     and_then (Embedding_forward (ba_embedding m) x) (\<lambda>x.
     and_then (LSTMLayer_forward (ba_bilstm m) x) (\<lambda>x.
     and_then (AttnLayer_forward (ba_attn m) x) (\<lambda>x.
     Linear_forward (ba_linear m) x)))"

subsection \<open>CNNModel\<close>

record CNNModel =
  cm_embedding :: Embedding
  cm_conv :: CNNLayer
  cm_linear :: Linear

definition CNNModel_init :: "config \<Rightarrow> CNNModel \<Rightarrow> bool" where
  "CNNModel_init c m =
     (Embedding_init (vocab c) (embed_dim c) (padding_id c) (cm_embedding m) \<and>
      CNNLayer_init_default (embed_dim c) (hidden_dim c) (cm_conv m) \<and>
      Linear_init (hidden_dim c) (tag_dim c) (cm_linear m))"

definition CNNModel_forward :: "CNNModel \<Rightarrow> int list list \<Rightarrow> error + mat" where
  "CNNModel_forward m x =
     and_then (Embedding_forward (cm_embedding m) x) (\<lambda>x.
     and_then (CNNLayer_forward (cm_conv m) x) (\<lambda>x.
     and_then (torch_max x) (\<lambda>x.
     Linear_forward (cm_linear m) (relu2 x))))"

subsection \<open>TextCNNModel\<close>

record TextCNNModel =
  tc_embedding :: Embedding
  tc_conv1 :: CNNLayer
  tc_conv2 :: CNNLayer
  tc_conv3 :: CNNLayer
  tc_linear :: Linear

definition TextCNNModel_init :: "config \<Rightarrow> TextCNNModel \<Rightarrow> bool" where
  "TextCNNModel_init c m =
     (Embedding_init (vocab c) (embed_dim c) (padding_id c) (tc_embedding m) \<and>
      CNNLayer_init (embed_dim c) (hidden_dim c) 2 0 (tc_conv1 m) \<and>
      CNNLayer_init (embed_dim c) (hidden_dim c) 3 0 (tc_conv2 m) \<and>
      CNNLayer_init (embed_dim c) (hidden_dim c) 4 0 (tc_conv3 m) \<and>
      Linear_init (hidden_dim c * 3) (tag_dim c) (tc_linear m))"

definition TextCNNModel_forward :: "TextCNNModel \<Rightarrow> int list list \<Rightarrow> error + mat" where
  "TextCNNModel_forward m x =
     and_then (Embedding_forward (tc_embedding m) x) (\<lambda>x.
     and_then (CNNLayer_forward (tc_conv1 m) x) (\<lambda>feat1.
     and_then (CNNLayer_forward (tc_conv2 m) x) (\<lambda>feat2.
     and_then (CNNLayer_forward (tc_conv3 m) x) (\<lambda>feat3.
     and_then (torch_max (relu feat1)) (\<lambda>feat1.
     and_then (torch_max (relu feat2)) (\<lambda>feat2.
     and_then (torch_max (relu feat3)) (\<lambda>feat3.
     and_then (torch_cat3 feat1 feat2 feat3) (\<lambda>feat.
     Linear_forward (tc_linear m) feat))))))))"

subsection \<open>DPCNNModel\<close>

record DPCNNModel =
  dp_embedding :: Embedding
  dp_region_embedding :: CNNLayer
  dp_conv1 :: CNNLayer
  dp_conv2 :: CNNLayer
  dp_blocks :: "CNNBlock list"
  dp_linear :: Linear

text \<open>\<^verbatim>\<open>range(config.n_block)\<close> is empty when \<open>n_block \<le> 0\<close>.\<close>

definition DPCNNModel_init :: "config \<Rightarrow> DPCNNModel \<Rightarrow> bool" where
  "DPCNNModel_init c m =
     (let hidden_dim = 250
      in Embedding_init (vocab c) (embed_dim c) (padding_id c) (dp_embedding m) \<and>
         CNNLayer_init (embed_dim c) hidden_dim 3 1 (dp_region_embedding m) \<and>
         CNNLayer_init hidden_dim hidden_dim 3 1 (dp_conv1 m) \<and>
         CNNLayer_init hidden_dim hidden_dim 3 1 (dp_conv2 m) \<and>
         length (dp_blocks m) = nat (n_block c) \<and>
         Linear_init hidden_dim (tag_dim c) (dp_linear m))"

definition DPCNNModel_forward :: "DPCNNModel \<Rightarrow> int list list \<Rightarrow> error + mat" where
  "DPCNNModel_forward m x =
     and_then (Embedding_forward (dp_embedding m) x) (\<lambda>emb.
     and_then (CNNLayer_forward (dp_region_embedding m) emb) (\<lambda>emb.
     and_then (CNNLayer_forward (dp_conv1 m) (relu emb)) (\<lambda>x.
     and_then (CNNLayer_forward (dp_conv2 m) (relu x)) (\<lambda>x.
     and_then (torch_add x emb) (\<lambda>s.
     and_then (Sequential_forward (dp_blocks m) s) (\<lambda>x.
     and_then (torch_max x) (\<lambda>x.
     Linear_forward (dp_linear m) x)))))))"

subsection \<open>CNNAttnModel\<close>

record CNNAttnModel =
  ca_cnn :: CNNLayer
  ca_embedding :: Embedding
  ca_attn :: AttnLayer
  ca_linear :: Linear

definition CNNAttnModel_init :: "config \<Rightarrow> CNNAttnModel \<Rightarrow> bool" where
  "CNNAttnModel_init c m =
     (Embedding_init (vocab c) (embed_dim c) (padding_id c) (ca_embedding m) \<and>
      CNNLayer_init_default (embed_dim c) (hidden_dim c) (ca_cnn m) \<and>
      AttnLayer_init (hidden_dim c) (attn_dim c) (ca_attn m) \<and>
      Linear_init (hidden_dim c) (tag_dim c) (ca_linear m))"

definition CNNAttnModel_forward :: "CNNAttnModel \<Rightarrow> int list list \<Rightarrow> error + mat" where
  "CNNAttnModel_forward m x =
     and_then (Embedding_forward (ca_embedding m) x) (\<lambda>x.
     and_then (CNNLayer_forward (ca_cnn m) x) (\<lambda>x.
     and_then (AttnLayer_forward (ca_attn m) (relu x)) (\<lambda>x.
     Linear_forward (ca_linear m) x)))"

subsection \<open>The family of models\<close>

datatype model =
    LSTM LSTMModel
  | CNN CNNModel
  | TextCNN TextCNNModel
  | DPCNN DPCNNModel
  | BiLSTMAttn BiLSTMAttnModel
  | CNNAttn CNNAttnModel
  | RCNN RCNNModel

fun forward :: "model \<Rightarrow> int list list \<Rightarrow> error + mat" where
  "forward (LSTM m) x = LSTMModel_forward m x"
| "forward (CNN m) x = CNNModel_forward m x"
| "forward (TextCNN m) x = TextCNNModel_forward m x"
| "forward (DPCNN m) x = DPCNNModel_forward m x"
| "forward (BiLSTMAttn m) x = BiLSTMAttnModel_forward m x"
| "forward (CNNAttn m) x = CNNAttnModel_forward m x"
| "forward (RCNN m) x = RCNNModel_forward m x"

fun model_init :: "config \<Rightarrow> model \<Rightarrow> bool" where
  "model_init c (LSTM m) = LSTMModel_init c m"
| "model_init c (CNN m) = CNNModel_init c m"
| "model_init c (TextCNN m) = TextCNNModel_init c m"
| "model_init c (DPCNN m) = DPCNNModel_init c m"
| "model_init c (BiLSTMAttn m) = BiLSTMAttnModel_init c m"
| "model_init c (CNNAttn m) = CNNAttnModel_init c m"
| "model_init c (RCNN m) = RCNNModel_init c m"

text \<open>An input batch of shape (batch_size, max_seq_len) with token ids in
  \<open>[0, vocab)\<close>.\<close>

definition valid_batch :: "config \<Rightarrow> int list list \<Rightarrow> nat \<Rightarrow> nat \<Rightarrow> bool" where
  "valid_batch c x batch_size max_seq_len =
     (has_shape x batch_size max_seq_len \<and>
      list_all (list_all (\<lambda>t. 0 \<le> t \<and> t < int (vocab c))) x)"

text \<open>The batches on which the forward pass of each model is defined: the sequence is
  not empty, it is at least as long as the widest unpadded window of TextCNNModel, the
  two directions of a bidirectional encoder add up to the width the next layer expects,
  and, for DPCNNModel, the block stack is empty (a block is a parameter here).\<close>

fun accepts :: "config \<Rightarrow> model \<Rightarrow> nat \<Rightarrow> bool" where
  "accepts c (LSTM m) max_seq_len = (0 < max_seq_len)"
| "accepts c (CNN m) max_seq_len = (0 < max_seq_len)"
| "accepts c (TextCNN m) max_seq_len = (4 \<le> max_seq_len)"
| "accepts c (DPCNN m) max_seq_len = (0 < max_seq_len \<and> n_block c \<le> 0)"
| "accepts c (BiLSTMAttn m) max_seq_len = (0 < max_seq_len \<and> even (hidden_dim c))"
| "accepts c (CNNAttn m) max_seq_len = (0 < max_seq_len)"
| "accepts c (RCNN m) max_seq_len = (0 < max_seq_len \<and> even (embed_dim c))"

subsection \<open>DPCNNModel without blocks, as the specification words it\<close>

text \<open>The region embedding of the embedded batch, the two further convolutions with ReLU
  before each, the residual sum, then directly the maximum over the positions and the
  linear head: no block, no downsampling.\<close>

definition DPCNN_no_block_spec :: "DPCNNModel \<Rightarrow> int list list \<Rightarrow> error + mat" where
  "DPCNN_no_block_spec m x =
     and_then (Embedding_forward (dp_embedding m) x) (\<lambda>emb.
     and_then (CNNLayer_forward (dp_region_embedding m) emb) (\<lambda>region.
     and_then (CNNLayer_forward (dp_conv1 m) (relu region)) (\<lambda>c1.
     and_then (CNNLayer_forward (dp_conv2 m) (relu c1)) (\<lambda>c2.
     and_then (torch_add c2 region) (\<lambda>residual.
     and_then (torch_max residual) (\<lambda>pooled.
     Linear_forward (dp_linear m) pooled))))))"

subsection \<open>Example models\<close>

text \<open>Concrete instances: a vocabulary of 100 tokens, three tags, padding id 0; an
  embedding table whose row t repeats the number t; unit weights and zero biases; a
  recurrent cell whose hidden state adds the inputs read so far to the number of
  positions read.\<close>

definition example_config :: "nat \<Rightarrow> nat \<Rightarrow> config" where
  "example_config e h =
     \<lparr>vocab = 100, embed_dim = e, hidden_dim = h, tag_dim = 3, padding_id = 0, n_layer = 1,
      dropout = 0, attn_dim = 1, n_block = 0\<rparr>"

definition example_embedding :: "nat \<Rightarrow> Embedding" where
  "example_embedding e =
     \<lparr>emb_weight = map (\<lambda>t. replicate e (real t)) [0..<100], emb_padding_idx = 0\<rparr>"

definition example_cell :: "nat \<Rightarrow> cell" where
  "example_cell k = (\<lambda>s v. (replicate k (sum_list (fst s) + sum_list v + 1), snd s))"

definition example_linear :: "nat \<Rightarrow> nat \<Rightarrow> Linear" where
  "example_linear i out =
     \<lparr>lin_in = i, lin_weight = replicate out (replicate i 1), lin_bias = replicate out 0\<rparr>"

definition example_conv :: "nat \<Rightarrow> nat \<Rightarrow> nat \<Rightarrow> nat \<Rightarrow> CNNLayer" where
  "example_conv i out w p =
     \<lparr>cnn_in = i, cnn_win = w, cnn_pad = p,
      cnn_weight = replicate out (replicate w (replicate i 1)), cnn_bias = replicate out 0\<rparr>"

definition example_LSTMModel :: LSTMModel where
  "example_LSTMModel =
     \<lparr>lm_embedding = example_embedding 1,
      lm_lstm = \<lparr>lstm_in = 1, lstm_hid = 1, lstm_bi = False,
                 lstm_cells = [(example_cell 1, example_cell 1)]\<rparr>,
      lm_linear = example_linear 1 3,
      lm_padding_id = 0\<rparr>"

definition example_CNNModel :: CNNModel where
  "example_CNNModel =
     \<lparr>cm_embedding = example_embedding 8,
      cm_conv = example_conv 8 16 3 1,
      cm_linear = example_linear 16 3\<rparr>"

definition example_TextCNNModel :: TextCNNModel where
  "example_TextCNNModel =
     \<lparr>tc_embedding = example_embedding 8,
      tc_conv1 = example_conv 8 16 2 0,
      tc_conv2 = example_conv 8 16 3 0,
      tc_conv3 = example_conv 8 16 4 0,
      tc_linear = example_linear 48 3\<rparr>"

definition example_RCNNModel :: "nat \<Rightarrow> RCNNModel" where
  "example_RCNNModel e =
     \<lparr>rc_embedding = example_embedding e,
      rc_bilstm = \<lparr>lstm_in = e, lstm_hid = e div 2, lstm_bi = True,
                   lstm_cells = [(example_cell (e div 2), example_cell (e div 2))]\<rparr>,
      rc_encoder = example_linear (2 * e) 1,
      rc_linear = example_linear 1 3\<rparr>"

definition example_DPCNNModel :: DPCNNModel where
  "example_DPCNNModel =
     \<lparr>dp_embedding = example_embedding 1,
      dp_region_embedding = example_conv 1 250 3 1,
      dp_conv1 = example_conv 250 250 3 1,
      dp_conv2 = example_conv 250 250 3 1,
      dp_blocks = [],
      dp_linear = example_linear 250 3\<rparr>"

section \<open>Properties\<close>

subsection \<open>Operations along an axis\<close>

lemma map_err_all2:
  "map_err f xs = Inr ys \<Longrightarrow> list_all2 (\<lambda>x y. f x = Inr y) xs ys"
  by (induction xs arbitrary: ys) (auto split: sum.splits)

lemma all2_map_err:
  "list_all2 (\<lambda>x y. f x = Inr y) xs ys \<Longrightarrow> map_err f xs = Inr ys"
  by (induction rule: list_all2_induct) auto

lemma map_err_Inr_iff:
  "map_err f xs = Inr ys \<longleftrightarrow> list_all2 (\<lambda>x y. f x = Inr y) xs ys"
  using map_err_all2 all2_map_err by blast

lemma map_err_length: "map_err f xs = Inr ys \<Longrightarrow> length ys = length xs"
  by (simp add: map_err_Inr_iff list_all2_lengthD)

lemma map_err_map: "(\<And>x. x \<in> set xs \<Longrightarrow> f x = Inr (g x)) \<Longrightarrow> map_err f xs = Inr (map g xs)"
  by (induction xs) auto

lemma map_err_fail:
  "xs \<noteq> [] \<Longrightarrow> (\<And>x. x \<in> set xs \<Longrightarrow> f x = Inl e) \<Longrightarrow> map_err f xs = Inl e"
  by (cases xs) auto

lemma map_err_nth:
  "map_err f xs = Inr ys \<Longrightarrow> i < length xs \<Longrightarrow> f (xs ! i) = Inr (ys ! i)"
  by (simp add: map_err_Inr_iff list_all2_conv_all_nth)

lemma map_err_set:
  "map_err f xs = Inr ys \<Longrightarrow> y \<in> set ys \<Longrightarrow> \<exists>x \<in> set xs. f x = Inr y"
  by (metis in_set_conv_nth map_err_length map_err_nth nth_mem)

subsection \<open>Sequence lengths\<close>

lemma filter_eq_count: "length (filter (\<lambda>t. t = p) row) = count_list row p"
  by (induction row) auto

subsection \<open>Shapes of the results\<close>

lemma and_then_Inr_iff: "and_then r f = Inr y \<longleftrightarrow> (\<exists>v. r = Inr v \<and> f v = Inr y)"
  by (cases r) (simp_all add: and_then_def)

lemma and_then_Inr [simp]: "and_then (Inr v) f = f v"
  by (simp add: and_then_def)

lemma and_then_Inl [simp]: "and_then (Inl e) f = Inl e"
  by (simp add: and_then_def)

lemma Embedding_forward_length: "Embedding_forward e x = Inr y \<Longrightarrow> length y = length x"
  by (simp add: Embedding_forward_def map_err_length)

lemma LSTMLayer_forward_length: "LSTMLayer_forward l x = Inr y \<Longrightarrow> length y = length x"
  by (simp add: LSTMLayer_forward_def map_err_length)

lemma CNNLayer_forward_length: "CNNLayer_forward l x = Inr y \<Longrightarrow> length y = length x"
  by (simp add: CNNLayer_forward_def map_err_length)

lemma AttnLayer_forward_length: "AttnLayer_forward l x = Inr y \<Longrightarrow> length y = length x"
  by (simp add: AttnLayer_forward_def map_err_length)

lemma torch_max_length: "torch_max x = Inr y \<Longrightarrow> length y = length x"
  by (simp add: torch_max_def map_err_length)

lemma Linear_forward3_length: "Linear_forward3 l x = Inr y \<Longrightarrow> length y = length x"
  by (simp add: Linear_forward3_def map_err_length)

lemma torch_cat_length: "torch_cat a b = Inr y \<Longrightarrow> length y = length a"
  by (auto simp: torch_cat_def dest: map_err_length split: if_splits)

lemma torch_add_length: "torch_add a b = Inr y \<Longrightarrow> length y = length a"
  by (auto simp: torch_add_def dest: map_err_length split: if_splits)

lemma torch_cat3_length: "torch_cat3 a b c = Inr y \<Longrightarrow> length y = length a"
  by (auto simp: torch_cat3_def split: if_splits)

lemma gather_length: "gather x rows idx = Inr y \<Longrightarrow> length y = length idx"
  by (auto simp: gather_def dest: map_err_length split: if_splits)

lemma Sequential_forward_gen:
  "foldl (\<lambda>r b. and_then r (map_err b)) r0 bs = Inr y \<Longrightarrow>
     \<exists>x0. r0 = Inr x0 \<and> length y = length x0"
proof (induction bs arbitrary: r0)
  case Nil
  then show ?case by simp
next
  case (Cons b bs)
  from Cons.IH [OF Cons.prems [simplified]]
  obtain x1 where x1: "and_then r0 (map_err b) = Inr x1" and l: "length y = length x1"
    by blast
  from x1 obtain x0 where "r0 = Inr x0" and "map_err b x0 = Inr x1"
    by (auto simp: and_then_Inr_iff)
  with l show ?case by (auto dest: map_err_length)
qed

lemma Sequential_forward_length: "Sequential_forward bs x = Inr y \<Longrightarrow> length y = length x"
  unfolding Sequential_forward_def by (drule Sequential_forward_gen) simp

lemma Linear_vec_width:
  "Linear_init i out l \<Longrightarrow> Linear_vec l v = Inr w \<Longrightarrow> length w = out"
  by (auto simp: Linear_init_def Linear_vec_def has_shape_def split: if_splits)

lemma Linear_forward_shape:
  assumes "Linear_init i out l" and "Linear_forward l x = Inr y"
  shows "has_shape y (length x) out"
proof -
  from assms(2) have len: "length y = length x"
    by (simp add: Linear_forward_def map_err_length)
  have "length w = out" if "w \<in> set y" for w
  proof -
    from assms(2) that obtain v where "Linear_vec l v = Inr w"
      unfolding Linear_forward_def by (blast dest: map_err_set)
    with assms(1) show ?thesis by (rule Linear_vec_width)
  qed
  with len show ?thesis by (simp add: has_shape_def list_all_iff)
qed

lemma length_relu [simp]: "length (relu x) = length x"
  by (simp add: relu_def)

lemma length_relu2 [simp]: "length (relu2 x) = length x"
  by (simp add: relu2_def)

lemma length_tanh3 [simp]: "length (tanh3 x) = length x"
  by (simp add: tanh3_def)

lemmas forward_lengths = Embedding_forward_length LSTMLayer_forward_length
  CNNLayer_forward_length AttnLayer_forward_length torch_max_length Linear_forward3_length
  torch_cat_length torch_add_length torch_cat3_length gather_length Sequential_forward_length

lemma LSTMModel_forward_shape:
  assumes "LSTMModel_init c m" and "LSTMModel_forward m x = Inr out"
  shows "has_shape out (length x) (tag_dim c)"
proof -
  from assms(2) obtain s where s: "LSTMModel_select m x = Inr s"
    and o: "Linear_forward (lm_linear m) s = Inr out"
    by (auto simp: LSTMModel_forward_def and_then_Inr_iff)
  from s have "length s = length x"
    by (auto simp: LSTMModel_select_def Let_def and_then_Inr_iff cal_seq_len_def
        dest!: forward_lengths)
  moreover from assms(1) have "Linear_init (hidden_dim c) (tag_dim c) (lm_linear m)"
    by (simp add: LSTMModel_init_def)
  ultimately show ?thesis using Linear_forward_shape [OF _ o] by metis
qed

lemma RCNNModel_forward_shape:
  assumes "RCNNModel_init c m" and "RCNNModel_forward m x = Inr out"
  shows "has_shape out (length x) (tag_dim c)"
proof -
  from assms(2) obtain s where len: "length s = length x"
    and o: "Linear_forward (rc_linear m) s = Inr out"
    by (auto simp: RCNNModel_forward_def and_then_Inr_iff
        dest!: forward_lengths)
  from assms(1) obtain i where "Linear_init i (tag_dim c) (rc_linear m)"
    by (auto simp: RCNNModel_init_def Let_def)
  from Linear_forward_shape [OF this o] len show ?thesis by simp
qed

lemma BiLSTMAttnModel_forward_shape:
  assumes "BiLSTMAttnModel_init c m" and "BiLSTMAttnModel_forward m x = Inr out"
  shows "has_shape out (length x) (tag_dim c)"
proof -
  from assms(2) obtain s where len: "length s = length x"
    and o: "Linear_forward (ba_linear m) s = Inr out"
    by (auto simp: BiLSTMAttnModel_forward_def and_then_Inr_iff
        dest!: forward_lengths)
  from assms(1) obtain i where "Linear_init i (tag_dim c) (ba_linear m)"
    by (auto simp: BiLSTMAttnModel_init_def Let_def)
  from Linear_forward_shape [OF this o] len show ?thesis by simp
qed

lemma CNNModel_forward_shape:
  assumes "CNNModel_init c m" and "CNNModel_forward m x = Inr out"
  shows "has_shape out (length x) (tag_dim c)"
proof -
  from assms(2) obtain v where len: "length v = length x"
    and o: "Linear_forward (cm_linear m) (relu2 v) = Inr out"
    by (auto simp: CNNModel_forward_def and_then_Inr_iff dest!: forward_lengths)
  from assms(1) have "Linear_init (hidden_dim c) (tag_dim c) (cm_linear m)"
    by (simp add: CNNModel_init_def)
  from Linear_forward_shape [OF this o] len show ?thesis by simp
qed

lemma TextCNNModel_forward_shape:
  assumes "TextCNNModel_init c m" and "TextCNNModel_forward m x = Inr out"
  shows "has_shape out (length x) (tag_dim c)"
proof -
  from assms(2) obtain s where len: "length s = length x"
    and o: "Linear_forward (tc_linear m) s = Inr out"
    by (auto simp: TextCNNModel_forward_def and_then_Inr_iff
        dest!: forward_lengths)
  from assms(1) obtain i where "Linear_init i (tag_dim c) (tc_linear m)"
    by (auto simp: TextCNNModel_init_def Let_def)
  from Linear_forward_shape [OF this o] len show ?thesis by simp
qed

lemma DPCNNModel_forward_shape:
  assumes "DPCNNModel_init c m" and "DPCNNModel_forward m x = Inr out"
  shows "has_shape out (length x) (tag_dim c)"
proof -
  from assms(2) obtain s where len: "length s = length x"
    and o: "Linear_forward (dp_linear m) s = Inr out"
    by (auto simp: DPCNNModel_forward_def and_then_Inr_iff
        dest!: forward_lengths)
  from assms(1) obtain i where "Linear_init i (tag_dim c) (dp_linear m)"
    by (auto simp: DPCNNModel_init_def Let_def)
  from Linear_forward_shape [OF this o] len show ?thesis by simp
qed

lemma CNNAttnModel_forward_shape:
  assumes "CNNAttnModel_init c m" and "CNNAttnModel_forward m x = Inr out"
  shows "has_shape out (length x) (tag_dim c)"
proof -
  from assms(2) obtain s where len: "length s = length x"
    and o: "Linear_forward (ca_linear m) s = Inr out"
    by (auto simp: CNNAttnModel_forward_def and_then_Inr_iff
        dest!: forward_lengths)
  from assms(1) obtain i where "Linear_init i (tag_dim c) (ca_linear m)"
    by (auto simp: CNNAttnModel_init_def Let_def)
  from Linear_forward_shape [OF this o] len show ?thesis by simp
qed

lemma forward_shape_if_returns:
  assumes "model_init c m" and "forward m x = Inr out"
  shows "has_shape out (length x) (tag_dim c)"
  using assms
  by (cases m)
    (simp_all add: LSTMModel_forward_shape RCNNModel_forward_shape
      BiLSTMAttnModel_forward_shape CNNModel_forward_shape TextCNNModel_forward_shape
      DPCNNModel_forward_shape CNNAttnModel_forward_shape)

subsection \<open>Layers applied to well-shaped tensors\<close>

lemma map_err_lift:
  assumes "\<And>s. s \<in> set t \<Longrightarrow> \<exists>s'. f s = Inr s' \<and> Q s'"
  shows "\<exists>t'. map_err f t = Inr t' \<and> length t' = length t \<and> (\<forall>s' \<in> set t'. Q s')"
  using assms
proof (induction t)
  case Nil
  then show ?case by simp
next
  case (Cons a t)
  from Cons.prems obtain a' where a: "f a = Inr a'" "Q a'" by auto
  from Cons obtain t' where t: "map_err f t = Inr t'" "length t' = length t"
    "\<forall>s' \<in> set t'. Q s'" by auto
  from a t show ?case by simp
qed

lemma map_err_shape3:
  assumes "\<And>s. has_shape s n d \<Longrightarrow> \<exists>s'. f s = Inr s' \<and> has_shape s' n' d'"
    and "has_shape3 t b n d"
  shows "\<exists>t'. map_err f t = Inr t' \<and> has_shape3 t' b n' d'"
proof -
  have "\<exists>s'. f s = Inr s' \<and> has_shape s' n' d'" if "s \<in> set t" for s
    using that assms by (simp add: has_shape3_def list_all_iff)
  from map_err_lift [of t f "\<lambda>s'. has_shape s' n' d'", OF this] assms(2)
  show ?thesis by (auto simp: has_shape3_def list_all_iff)
qed

lemma map_err_shape32:
  assumes "\<And>s. has_shape s n d \<Longrightarrow> \<exists>v. f s = Inr v \<and> length v = d'"
    and "has_shape3 t b n d"
  shows "\<exists>y. map_err f t = Inr y \<and> has_shape y b d'"
proof -
  have "\<exists>v. f s = Inr v \<and> length v = d'" if "s \<in> set t" for s
    using that assms by (simp add: has_shape3_def list_all_iff)
  from map_err_lift [of t f "\<lambda>v. length v = d'", OF this] assms(2)
  show ?thesis by (auto simp: has_shape3_def has_shape_def list_all_iff)
qed

lemma map_err_shape2:
  assumes "\<And>v. length v = d \<Longrightarrow> \<exists>w. f v = Inr w \<and> length w = d'"
    and "has_shape s n d"
  shows "\<exists>s'. map_err f s = Inr s' \<and> has_shape s' n d'"
proof -
  have "\<exists>w. f v = Inr w \<and> length w = d'" if "v \<in> set s" for v
    using that assms by (simp add: has_shape_def list_all_iff)
  from map_err_lift [of s f "\<lambda>w. length w = d'", OF this] assms(2)
  show ?thesis by (auto simp: has_shape_def list_all_iff)
qed

subsection \<open>Embedding and linear layers\<close>

lemma Embedding_lookup_ok:
  assumes "Embedding_init n d p e" and "0 \<le> t" and "t < int n"
  shows "\<exists>v. Embedding_lookup e t = Inr v \<and> length v = d"
proof -
  from assms have "nat t < length (emb_weight e)"
    by (simp add: Embedding_init_def has_shape_def)
  moreover from this assms(1) have "length (emb_weight e ! nat t) = d"
    by (simp add: Embedding_init_def has_shape_def list_all_length)
  ultimately show ?thesis using assms by (simp add: Embedding_lookup_def)
qed

lemma Embedding_forward_ok:
  assumes "Embedding_init (vocab c) d p e" and "valid_batch c x b n"
  shows "\<exists>y. Embedding_forward e x = Inr y \<and> has_shape3 y b n d"
proof -
  have row: "\<exists>s. map_err (Embedding_lookup e) r = Inr s \<and> has_shape s n d"
    if "r \<in> set x" for r
  proof -
    from that assms(2) have len: "length r = n"
      and ok: "\<forall>t \<in> set r. 0 \<le> t \<and> t < int (vocab c)"
      by (auto simp: valid_batch_def has_shape_def list_all_iff)
    have "\<exists>v. Embedding_lookup e t = Inr v \<and> length v = d" if "t \<in> set r" for t
      using that ok Embedding_lookup_ok [OF assms(1)] by simp
    from map_err_lift [of r "Embedding_lookup e" "\<lambda>v. length v = d", OF this] len
    show ?thesis by (auto simp: has_shape_def list_all_iff)
  qed
  from map_err_lift [of x "map_err (Embedding_lookup e)" "\<lambda>s. has_shape s n d", OF row]
    assms(2)
  show ?thesis
    by (auto simp: Embedding_forward_def has_shape3_def valid_batch_def has_shape_def
        list_all_iff)
qed

lemma Linear_vec_ok:
  assumes "Linear_init i out l" and "length v = i"
  shows "\<exists>w. Linear_vec l v = Inr w \<and> length w = out"
  using assms by (simp add: Linear_init_def Linear_vec_def has_shape_def)

lemma Linear_vec_bad:
  assumes "Linear_init i out l" and "length v \<noteq> i"
  shows "Linear_vec l v = Inl ShapeError"
  using assms by (simp add: Linear_init_def Linear_vec_def)

lemma Linear_forward_ok:
  assumes "Linear_init i out l" and "has_shape x b i"
  shows "\<exists>y. Linear_forward l x = Inr y \<and> has_shape y b out"
  unfolding Linear_forward_def
  using map_err_shape2 [of i "Linear_vec l" out x b] Linear_vec_ok [OF assms(1)] assms(2)
  by blast

lemma Linear_forward3_ok:
  assumes "Linear_init i out l" and "has_shape3 x b n i"
  shows "\<exists>y. Linear_forward3 l x = Inr y \<and> has_shape3 y b n out"
proof -
  have "\<exists>s'. map_err (Linear_vec l) s = Inr s' \<and> has_shape s' n out"
    if "has_shape s n i" for s
    using map_err_shape2 [of i "Linear_vec l" out s n] Linear_vec_ok [OF assms(1)] that
    by blast
  from map_err_shape3 [of n i "map_err (Linear_vec l)" n out x b, OF this assms(2)]
  show ?thesis by (simp add: Linear_forward3_def)
qed

subsection \<open>The recurrent encoder\<close>

lemma length_scan_cell [simp]: "length (scan_cell f s xs) = length xs"
  by (induction xs arbitrary: s) simp_all

lemma scan_cell_width: "cell_ok h f \<Longrightarrow> v \<in> set (scan_cell f s xs) \<Longrightarrow> length v = h"
proof (induction xs arbitrary: s)
  case Nil
  then show ?case by simp
next
  case (Cons x xs)
  from Cons.prems(2) consider "v = fst (f s x)" | "v \<in> set (scan_cell f (f s x) xs)"
    by auto
  then show ?case
  proof cases
    case 1
    from Cons.prems(1) have "length (fst (f s x)) = h"
      unfolding cell_ok_def by (rule allE) (erule allE)
    with 1 show ?thesis by simp
  next
    case 2
    from Cons.IH [OF Cons.prems(1) 2] show ?thesis .
  qed
qed

lemma length_run_layer [simp]: "length (run_layer h bi xs fb) = length xs"
  by (simp add: run_layer_def Let_def)

lemma run_layer_shape:
  assumes "cell_ok h (fst fb)" and "cell_ok h (snd fb)"
  shows "has_shape (run_layer h bi xs fb) (length xs) (if bi then 2 * h else h)"
proof (cases bi)
  case False
  with assms(1) show ?thesis
    by (auto simp: run_layer_def Let_def has_shape_def list_all_iff dest: scan_cell_width)
next
  case True
  have "length v = 2 * h" if "v \<in> set (run_layer h True xs fb)" for v
  proof -
    from that obtain a b where v: "v = a @ b"
      and a: "a \<in> set (scan_cell (fst fb) (replicate h 0, replicate h 0) xs)"
      and b: "b \<in> set (scan_cell (snd fb) (replicate h 0, replicate h 0) (rev xs))"
      by (auto simp: run_layer_def Let_def dest!: set_zip_leftD set_zip_rightD
          elim!: in_set_zipE)
    from scan_cell_width [OF assms(1) a] scan_cell_width [OF assms(2) b] v
    show ?thesis by simp
  qed
  with True show ?thesis by (simp add: has_shape_def list_all_iff)
qed

lemma length_foldl_run_layer [simp]:
  "length (foldl (run_layer h bi) xs cs) = length xs"
  by (induction cs arbitrary: xs) simp_all

lemma foldl_run_layer_shape:
  assumes "cs \<noteq> []" and "\<forall>fb \<in> set cs. cell_ok h (fst fb) \<and> cell_ok h (snd fb)"
  shows "has_shape (foldl (run_layer h bi) xs cs) (length xs) (if bi then 2 * h else h)"
proof -
  from assms(1) obtain cs' fb where cs: "cs = cs' @ [fb]"
    by (cases cs rule: rev_cases) auto
  with assms(2) have "cell_ok h (fst fb)" "cell_ok h (snd fb)" by auto
  from run_layer_shape [OF this, of bi "foldl (run_layer h bi) xs cs'"] cs
  show ?thesis by simp
qed

lemma LSTMLayer_seq_ok:
  assumes "LSTMLayer_init i h n bi l" and "has_shape s len i"
  shows "LSTMLayer_seq l s = Inr (foldl (run_layer h bi) s (lstm_cells l)) \<and>
         has_shape (foldl (run_layer h bi) s (lstm_cells l)) len (if bi then 2 * h else h)"
proof -
  from assms(1) have ne: "lstm_cells l \<noteq> []"
    and ok: "\<forall>fb \<in> set (lstm_cells l). cell_ok h (fst fb) \<and> cell_ok h (snd fb)"
    and eq: "lstm_in l = i" "lstm_hid l = h" "lstm_bi l = bi"
    by (auto simp: LSTMLayer_init_def)
  from assms(2) eq have "list_all (\<lambda>v. length v = lstm_in l) s" and "length s = len"
    by (simp_all add: has_shape_def)
  with foldl_run_layer_shape [OF ne ok, of bi s] eq show ?thesis
    by (simp add: LSTMLayer_seq_def)
qed

lemma LSTMLayer_forward_ok:
  assumes "LSTMLayer_init i h n bi l" and "has_shape3 x b len i"
  shows "LSTMLayer_forward l x = Inr (map (\<lambda>s. foldl (run_layer h bi) s (lstm_cells l)) x) \<and>
         has_shape3 (map (\<lambda>s. foldl (run_layer h bi) s (lstm_cells l)) x) b len
           (if bi then 2 * h else h)"
proof -
  have "LSTMLayer_seq l s = Inr (foldl (run_layer h bi) s (lstm_cells l)) \<and>
        has_shape (foldl (run_layer h bi) s (lstm_cells l)) len (if bi then 2 * h else h)"
    if "s \<in> set x" for s
    using that assms(2) LSTMLayer_seq_ok [OF assms(1), of s len]
    by (simp add: has_shape3_def list_all_iff)
  with assms(2) show ?thesis
    by (simp add: LSTMLayer_forward_def map_err_map has_shape3_def list_all_iff)
qed

subsection \<open>Convolutions\<close>

lemma length_windows [simp]: "length (windows k xs) = length xs + 1 - k"
  by (simp add: windows_def)

lemma length_conv_at: "CNNLayer_init i out w p l \<Longrightarrow> length (conv_at l win) = out"
  by (simp add: conv_at_def CNNLayer_init_def)

lemma CNNLayer_seq_ok:
  assumes "CNNLayer_init i out w p l" and "has_shape s len i" and "w \<le> len + 2 * p"
  shows "\<exists>s'. CNNLayer_seq l s = Inr s' \<and> has_shape s' (len + 2 * p + 1 - w) out"
proof -
  from assms(1) have eq: "cnn_in l = i" "cnn_win l = w" "cnn_pad l = p"
    by (simp_all add: CNNLayer_init_def)
  from assms(2) eq have "list_all (\<lambda>v. length v = cnn_in l) s" and len: "length s = len"
    by (simp_all add: has_shape_def)
  with eq assms(3) length_conv_at [OF assms(1)] show ?thesis
    by (simp add: CNNLayer_seq_def Let_def has_shape_def list_all_iff)
qed

lemma CNNLayer_seq_small:
  assumes "CNNLayer_init i out w p l" and "has_shape s len i" and "len + 2 * p < w"
  shows "CNNLayer_seq l s = Inl SizeError"
proof -
  from assms(1) have eq: "cnn_in l = i" "cnn_win l = w" "cnn_pad l = p"
    by (simp_all add: CNNLayer_init_def)
  from assms(2) eq have "list_all (\<lambda>v. length v = cnn_in l) s" and len: "length s = len"
    by (simp_all add: has_shape_def)
  with eq assms(3) show ?thesis
    by (simp add: CNNLayer_seq_def Let_def)
qed

lemma CNNLayer_forward_ok:
  assumes "CNNLayer_init i out w p l" and "has_shape3 x b len i" and "w \<le> len + 2 * p"
  shows "\<exists>y. CNNLayer_forward l x = Inr y \<and> has_shape3 y b (len + 2 * p + 1 - w) out"
  unfolding CNNLayer_forward_def
  using map_err_shape3 [of len i "CNNLayer_seq l" "len + 2 * p + 1 - w" out x b]
    CNNLayer_seq_ok [OF assms(1) _ assms(3)] assms(2)
  by blast

lemma CNNLayer_forward_small:
  assumes "CNNLayer_init i out w p l" and "has_shape3 x b len i" and "len + 2 * p < w"
    and "0 < b"
  shows "CNNLayer_forward l x = Inl SizeError"
proof -
  from assms(2,4) have "x \<noteq> []" by (auto simp: has_shape3_def)
  moreover have "CNNLayer_seq l s = Inl SizeError" if "s \<in> set x" for s
    using that assms(2) CNNLayer_seq_small [OF assms(1) _ assms(3), of s]
    by (simp add: has_shape3_def list_all_iff)
  ultimately show ?thesis
    unfolding CNNLayer_forward_def by (rule map_err_fail)
qed

subsection \<open>Elementwise operations, pooling, concatenation\<close>

lemma has_shape3_relu [simp]: "has_shape3 (relu x) b n d = has_shape3 x b n d"
  by (simp add: relu_def has_shape3_def has_shape_def list_all_iff)

lemma has_shape3_tanh3 [simp]: "has_shape3 (tanh3 x) b n d = has_shape3 x b n d"
  by (simp add: tanh3_def has_shape3_def has_shape_def list_all_iff)

lemma has_shape_relu2 [simp]: "has_shape (relu2 x) b d = has_shape x b d"
  by (simp add: relu2_def has_shape_def list_all_iff)

lemma map2_max_upt:
  assumes "length w = d"
  shows "map2 max (map F [0..<d]) w = map (\<lambda>j. max (F j) (w ! j)) [0..<d]"
  using assms by (intro nth_equalityI) simp_all

lemma foldl_map2_max:
  assumes "length v = d" and "\<forall>w \<in> set vs. length w = d"
  shows "foldl (map2 max) v vs =
           map (\<lambda>j. Max ((\<lambda>t. (v # vs) ! t ! j) ` {..<Suc (length vs)})) [0..<d]"
  using assms(2)
proof (induction vs rule: rev_induct)
  case Nil
  have "map (\<lambda>j. v ! j) [0..<d] = v"
    using assms(1) map_nth [of v] by simp
  then show ?case by (simp add: lessThan_Suc)
next
  case (snoc w vs)
  let ?F = "\<lambda>j. Max ((\<lambda>t. (v # vs) ! t ! j) ` {..<Suc (length vs)})"
  from snoc.prems have w: "length w = d" and vs: "\<forall>u \<in> set vs. length u = d" by simp_all
  have eq: "(\<lambda>t. (v # vs @ [w]) ! t ! j) ` {..<Suc (length vs)} =
            (\<lambda>t. (v # vs) ! t ! j) ` {..<Suc (length vs)}" for j
  proof (rule image_cong)
    fix t assume "t \<in> {..<Suc (length vs)}"
    then have "t < length (v # vs)" by simp
    then have "((v # vs) @ [w]) ! t = (v # vs) ! t" by (rule nth_append_left)
    then show "(v # vs @ [w]) ! t ! j = (v # vs) ! t ! j" by simp
  qed simp
  have last: "(v # vs @ [w]) ! Suc (length vs) = w"
    by (simp add: nth_append)
  have "Max ((\<lambda>t. (v # vs @ [w]) ! t ! j) ` {..<Suc (Suc (length vs))}) =
          max (?F j) (w ! j)" for j
  proof -
    have "(\<lambda>t. (v # vs @ [w]) ! t ! j) ` {..<Suc (Suc (length vs))} =
            insert (w ! j) ((\<lambda>t. (v # vs) ! t ! j) ` {..<Suc (length vs)})"
      using eq [of j] last by (simp add: lessThan_Suc [of "Suc (length vs)"])
    moreover have "finite ((\<lambda>t. (v # vs) ! t ! j) ` {..<Suc (length vs)})"
      and "(\<lambda>t. (v # vs) ! t ! j) ` {..<Suc (length vs)} \<noteq> {}"
      by auto
    ultimately have "Max ((\<lambda>t. (v # vs @ [w]) ! t ! j) ` {..<Suc (Suc (length vs))}) =
        max (w ! j) (?F j)"
      using Max_insert [of "(\<lambda>t. (v # vs) ! t ! j) ` {..<Suc (length vs)}" "w ! j"]
      by presburger
    then show ?thesis by (simp only: max.commute)
  qed
  moreover have "foldl (map2 max) v (vs @ [w]) = map (\<lambda>j. max (?F j) (w ! j)) [0..<d]"
    using snoc.IH [OF vs] map2_max_upt [OF w, of ?F] by simp
  ultimately show ?case by simp
qed

lemma max_seq_eq:
  assumes "has_shape s n d" and "0 < n"
  shows "max_seq s = Inr (map (\<lambda>j. Max ((\<lambda>t. s ! t ! j) ` {..<n})) [0..<d])"
proof -
  from assms obtain v vs where s: "s = v # vs" by (cases s) (auto simp: has_shape_def)
  with assms(1) have "length v = d" "\<forall>w \<in> set vs. length w = d" "n = Suc (length vs)"
    by (auto simp: has_shape_def list_all_iff)
  with foldl_map2_max [of v d vs] s show ?thesis
    by (simp add: max_seq_def)
qed

lemma torch_max_ok:
  assumes "has_shape3 x b n d" and "0 < n"
  shows "torch_max x = Inr (map (\<lambda>s. map (\<lambda>j. Max ((\<lambda>t. s ! t ! j) ` {..<n})) [0..<d]) x) \<and>
         has_shape (map (\<lambda>s. map (\<lambda>j. Max ((\<lambda>t. s ! t ! j) ` {..<n})) [0..<d]) x) b d"
proof -
  have "max_seq s = Inr (map (\<lambda>j. Max ((\<lambda>t. s ! t ! j) ` {..<n})) [0..<d])"
    if "s \<in> set x" for s
    using that assms max_seq_eq [of s n d] by (simp add: has_shape3_def list_all_iff)
  with assms(1) show ?thesis
    by (simp add: torch_max_def map_err_map has_shape3_def has_shape_def list_all_iff)
qed

lemma cat_seq_ok:
  assumes "has_shape s n d1" and "has_shape t n d2"
  shows "cat_seq s t = Inr (map2 (@) s t) \<and> has_shape (map2 (@) s t) n (d1 + d2)"
proof -
  from assms have len: "length s = n" "length t = n" by (simp_all add: has_shape_def)
  have "length v = d1 + d2" if "v \<in> set (map2 (@) s t)" for v
  proof -
    from that obtain a b where "v = a @ b" "a \<in> set s" "b \<in> set t"
      by (auto elim!: in_set_zipE)
    with assms show ?thesis by (simp add: has_shape_def list_all_iff)
  qed
  with len show ?thesis by (simp add: cat_seq_def has_shape_def list_all_iff)
qed

lemma torch_cat_ok:
  assumes "has_shape3 a b n d1" and "has_shape3 c b n d2"
  shows "torch_cat a c = Inr (map2 (map2 (@)) a c) \<and>
         has_shape3 (map2 (map2 (@)) a c) b n (d1 + d2)"
proof -
  from assms have len: "length a = b" "length c = b" by (simp_all add: has_shape3_def)
  have el: "cat_seq s t = Inr (map2 (@) s t) \<and> has_shape (map2 (@) s t) n (d1 + d2)"
    if "(s, t) \<in> set (zip a c)" for s t
  proof -
    from that have "s \<in> set a" "t \<in> set c" by (auto elim: in_set_zipE)
    with assms have "has_shape s n d1" "has_shape t n d2"
      by (simp_all add: has_shape3_def list_all_iff)
    then show ?thesis by (rule cat_seq_ok)
  qed
  then have "map_err (\<lambda>(s, t). cat_seq s t) (zip a c) =
               Inr (map (\<lambda>(s, t). map2 (@) s t) (zip a c))"
    by (intro map_err_map) auto
  moreover have "has_shape s' n (d1 + d2)" if "s' \<in> set (map2 (map2 (@)) a c)" for s'
    using that el by auto
  ultimately show ?thesis using len
    by (simp add: torch_cat_def has_shape3_def list_all_iff)
qed

lemma add_seq_ok:
  assumes "has_shape s n d" and "has_shape t n d"
  shows "add_seq s t = Inr (map2 (map2 (+)) s t) \<and> has_shape (map2 (map2 (+)) s t) n d"
proof -
  from assms have len: "length s = n" "length t = n" by (simp_all add: has_shape_def)
  from assms have "map length s = replicate n d" "map length t = replicate n d"
    by (auto simp: has_shape_def list_all_iff intro!: replicate_eqI)
  then have same: "map length s = map length t" by simp
  have "length v = d" if "v \<in> set (map2 (map2 (+)) s t)" for v
  proof -
    from that obtain a b where "v = map2 (+) a b" "a \<in> set s" "b \<in> set t"
      by (auto elim!: in_set_zipE)
    with assms show ?thesis by (simp add: has_shape_def list_all_iff)
  qed
  with len same show ?thesis by (simp add: add_seq_def has_shape_def list_all_iff)
qed

lemma torch_add_ok:
  assumes "has_shape3 a b n d" and "has_shape3 c b n d"
  shows "torch_add a c = Inr (map2 (map2 (map2 (+))) a c) \<and>
         has_shape3 (map2 (map2 (map2 (+))) a c) b n d"
proof -
  from assms have len: "length a = b" "length c = b" by (simp_all add: has_shape3_def)
  have el: "add_seq s t = Inr (map2 (map2 (+)) s t) \<and> has_shape (map2 (map2 (+)) s t) n d"
    if "(s, t) \<in> set (zip a c)" for s t
  proof -
    from that have "s \<in> set a" "t \<in> set c" by (auto elim: in_set_zipE)
    with assms have "has_shape s n d" "has_shape t n d"
      by (simp_all add: has_shape3_def list_all_iff)
    then show ?thesis by (rule add_seq_ok)
  qed
  then have "map_err (\<lambda>(s, t). add_seq s t) (zip a c) =
               Inr (map (\<lambda>(s, t). map2 (map2 (+)) s t) (zip a c))"
    by (intro map_err_map) auto
  moreover have "has_shape s' n d" if "s' \<in> set (map2 (map2 (map2 (+))) a c)" for s'
    using that el by auto
  ultimately show ?thesis using len
    by (simp add: torch_add_def has_shape3_def list_all_iff)
qed

subsection \<open>Attention pooling\<close>

lemma attn_fold_width:
  assumes "\<forall>p \<in> set ps. length (snd p) = i"
  shows "length (foldr (\<lambda>(w, v) acc. map2 (+) (map ((*) w) v) acc) ps
           (replicate i (0 :: real))) = i"
  using assms by (induction ps) (auto simp: case_prod_unfold)

lemma AttnLayer_seq_ok:
  assumes "AttnLayer_init i a l" and "has_shape s n i"
  shows "\<exists>v. AttnLayer_seq l s = Inr v \<and> length v = i"
proof -
  from assms have eq: "attn_in l = i" and all: "list_all (\<lambda>v. length v = i) s"
    by (simp_all add: AttnLayer_init_def has_shape_def)
  have "\<forall>p \<in> set (zip (attn_weights l s) s). length (snd p) = i"
    using all by (auto simp: list_all_iff elim: in_set_zipE)
  from attn_fold_width [OF this] eq all show ?thesis
    by (simp add: AttnLayer_seq_def)
qed

lemma AttnLayer_forward_ok:
  assumes "AttnLayer_init i a l" and "has_shape3 x b n i"
  shows "\<exists>y. AttnLayer_forward l x = Inr y \<and> has_shape y b i"
  unfolding AttnLayer_forward_def
  using map_err_shape32 [of n i "AttnLayer_seq l" i x b] AttnLayer_seq_ok [OF assms(1)]
    assms(2)
  by blast

subsection \<open>Indexing\<close>

lemma index_seq_nonneg:
  assumes "0 \<le> j" and "j < int (length s)"
  shows "index_seq s j = Inr (s ! nat j)"
  using assms by (simp add: index_seq_def Let_def)

lemma index_seq_mod:
  assumes "0 < length s" and "- 1 \<le> j" and "j < int (length s)"
  shows "index_seq s j = Inr (s ! nat (j mod int (length s)))"
proof (cases "j < 0")
  case True
  with assms(2) have j: "j = - 1" by simp
  from assms(1) have "(- 1) mod int (length s) = int (length s) - 1"
    by (simp add: zmod_minus1)
  moreover from assms(1) have "Suc 0 \<le> length s" by (cases s) simp_all
  ultimately show ?thesis using j by (simp add: index_seq_def Let_def)
next
  case False
  with assms(3) show ?thesis by (simp add: index_seq_def Let_def)
qed

lemma gather_arange:
  assumes "length h = b" and "length idx = b"
    and "\<And>k. k < b \<Longrightarrow> index_seq (h ! k) (idx ! k) = Inr (g k)"
  shows "gather h (arange b) idx = Inr (map g [0..<b])"
proof -
  have "list_all2 (\<lambda>p y. (case p of (i, j) \<Rightarrow> and_then (index_seq h i) (\<lambda>s. index_seq s j)) = Inr y)
          (zip (arange b) idx) (map g [0..<b])"
  proof (rule list_all2_all_nthI)
    show "length (zip (arange b) idx) = length (map g [0..<b])"
      using assms(2) by (simp add: arange_def)
  next
    fix k assume "k < length (zip (arange b) idx)"
    then have k: "k < b" using assms(2) by (simp add: arange_def)
    then have z: "zip (arange b) idx ! k = (int k, idx ! k)"
      using assms(2) by (simp add: arange_def)
    from k assms(1) have "index_seq h (int k) = Inr (h ! k)"
      by (simp add: index_seq_nonneg)
    with z assms(3) [OF k] k
    show "(case zip (arange b) idx ! k of (i, j) \<Rightarrow> and_then (index_seq h i) (\<lambda>s. index_seq s j))
            = Inr (map g [0..<b] ! k)"
      by simp
  qed
  then have "map_err (\<lambda>(i, j). and_then (index_seq h i) (\<lambda>s. index_seq s j))
               (zip (arange b) idx) = Inr (map g [0..<b])"
    by (rule all2_map_err)
  with assms(2) show ?thesis by (simp add: gather_def arange_def)
qed

subsection \<open>Lengths of a well-shaped batch\<close>

lemma cal_seq_len_shape1:
  assumes "has_shape x b n"
  shows "cal_seq_len x (int (shape1 x)) p = cal_seq_len x (int n) p"
proof (cases x)
  case Nil
  then show ?thesis by (simp add: cal_seq_len_def)
next
  case (Cons r rs)
  with assms have "shape1 x = n" by (auto simp: has_shape_def shape1_def)
  then show ?thesis by simp
qed

lemma cal_seq_len_nth:
  assumes "i < length x"
  shows "cal_seq_len x m p ! i = m - int (length (filter (\<lambda>t. t = p) (x ! i)))"
  using assms by (simp add: cal_seq_len_def)

lemma cal_seq_len_bounds:
  assumes "has_shape x b n" and "i < b"
  shows "0 \<le> cal_seq_len x (int n) p ! i \<and> cal_seq_len x (int n) p ! i \<le> int n"
proof -
  from assms have "length (x ! i) = n" and i: "i < length x"
    by (simp_all add: has_shape_def list_all_length)
  moreover have "length (filter (\<lambda>t. t = p) (x ! i)) \<le> length (x ! i)"
    by (rule length_filter_le)
  ultimately show ?thesis by (simp add: cal_seq_len_nth)
qed

subsection \<open>LSTMModel on a valid batch\<close>

lemma LSTMModel_select_eq:
  assumes "LSTMModel_init c m" and "valid_batch c x b n" and "0 < n"
  shows "\<exists>e. Embedding_forward (lm_embedding m) x = Inr e \<and>
           has_shape3 e b n (embed_dim c) \<and>
           LSTMLayer_forward (lm_lstm m) e =
             Inr (map (\<lambda>s. foldl (run_layer (hidden_dim c) False) s (lstm_cells (lm_lstm m))) e) \<and>
           has_shape3
             (map (\<lambda>s. foldl (run_layer (hidden_dim c) False) s (lstm_cells (lm_lstm m))) e)
             b n (hidden_dim c) \<and>
           LSTMModel_select m x =
             Inr (map (\<lambda>i. foldl (run_layer (hidden_dim c) False) (e ! i) (lstm_cells (lm_lstm m)) !
                        nat ((cal_seq_len x (int n) (padding_id c) ! i - 1) mod int n))
                    [0..<b])"
proof -
  let ?enc = "\<lambda>s. foldl (run_layer (hidden_dim c) False) s (lstm_cells (lm_lstm m))"
  let ?lens = "cal_seq_len x (int n) (padding_id c)"
  from assms(1) have emb: "Embedding_init (vocab c) (embed_dim c) (padding_id c) (lm_embedding m)"
    and lstm: "LSTMLayer_init (embed_dim c) (hidden_dim c) (n_layer c) False (lm_lstm m)"
    and pad: "lm_padding_id m = padding_id c"
    by (simp_all add: LSTMModel_init_def)
  from assms(2) have sh: "has_shape x b n" by (simp add: valid_batch_def)
  then have lx: "length x = b" by (simp add: has_shape_def)
  from Embedding_forward_ok [OF emb assms(2)] obtain e
    where e: "Embedding_forward (lm_embedding m) x = Inr e"
      and es: "has_shape3 e b n (embed_dim c)" by blast
  from LSTMLayer_forward_ok [OF lstm es]
  have h: "LSTMLayer_forward (lm_lstm m) e = Inr (map ?enc e)"
    and hs: "has_shape3 (map ?enc e) b n (hidden_dim c)" by simp_all
  from es have le: "length e = b" by (simp add: has_shape3_def)
  have idx: "index_seq (map ?enc e ! k) (map (\<lambda>n. n - 1) ?lens ! k) =
               Inr (?enc (e ! k) ! nat ((?lens ! k - 1) mod int n))" if "k < b" for k
  proof -
    from that le have len: "length (?enc (e ! k)) = n"
      using es by (simp add: has_shape3_def has_shape_def list_all_length)
    from cal_seq_len_bounds [OF sh that, of "padding_id c"]
    have lo: "- 1 \<le> ?lens ! k - 1" and hi: "?lens ! k - 1 < int (length (?enc (e ! k)))"
      using len by simp_all
    from len assms(3) have pos: "0 < length (?enc (e ! k))" by simp
    from that lx have "map (\<lambda>n. n - 1) ?lens ! k = ?lens ! k - 1"
      by (simp add: cal_seq_len_def)
    moreover from that le have "map ?enc e ! k = ?enc (e ! k)" by simp
    ultimately show ?thesis
      using index_seq_mod [OF pos lo hi] len by simp
  qed
  have "gather (map ?enc e) (arange b) (map (\<lambda>n. n - 1) ?lens) =
          Inr (map (\<lambda>i. ?enc (e ! i) ! nat ((?lens ! i - 1) mod int n)) [0..<b])"
    by (rule gather_arange) (use le lx idx in \<open>simp_all add: cal_seq_len_def\<close>)
  with e h pad lx cal_seq_len_shape1 [OF sh, of "padding_id c"]
  have "LSTMModel_select m x =
          Inr (map (\<lambda>i. ?enc (e ! i) ! nat ((?lens ! i - 1) mod int n)) [0..<b])"
    by (simp add: LSTMModel_select_def Let_def shape0_def)
  with e es h hs show ?thesis by blast
qed

lemma LSTMModel_select_shape:
  assumes "LSTMModel_init c m" and "valid_batch c x b n" and "0 < n"
  shows "\<exists>sel. LSTMModel_select m x = Inr sel \<and> has_shape sel b (hidden_dim c)"
proof -
  let ?enc = "\<lambda>s. foldl (run_layer (hidden_dim c) False) s (lstm_cells (lm_lstm m))"
  let ?lens = "cal_seq_len x (int n) (padding_id c)"
  from LSTMModel_select_eq [OF assms] obtain e
    where hs: "has_shape3 (map ?enc e) b n (hidden_dim c)"
      and sel: "LSTMModel_select m x =
          Inr (map (\<lambda>i. ?enc (e ! i) ! nat ((?lens ! i - 1) mod int n)) [0..<b])"
    by blast
  have "length (?enc (e ! i) ! nat ((?lens ! i - 1) mod int n)) = hidden_dim c"
    if "i < b" for i
  proof -
    from hs that have s: "has_shape (?enc (e ! i)) n (hidden_dim c)"
      by (simp add: has_shape3_def list_all_length)
    from assms(3) have "nat ((?lens ! i - 1) mod int n) < n"
      by (simp add: nat_less_iff)
    with s show ?thesis by (simp add: has_shape_def list_all_length)
  qed
  then have "has_shape (map (\<lambda>i. ?enc (e ! i) ! nat ((?lens ! i - 1) mod int n)) [0..<b])
               b (hidden_dim c)"
    by (simp add: has_shape_def list_all_iff)
  with sel show ?thesis by simp
qed

lemma LSTMModel_forward_ok:
  assumes "LSTMModel_init c m" and "valid_batch c x b n" and "0 < n"
  shows "\<exists>out. LSTMModel_forward m x = Inr out \<and> has_shape out b (tag_dim c)"
proof -
  from LSTMModel_select_shape [OF assms] obtain sel
    where sel: "LSTMModel_select m x = Inr sel" and s: "has_shape sel b (hidden_dim c)"
    by blast
  from assms(1) have "Linear_init (hidden_dim c) (tag_dim c) (lm_linear m)"
    by (simp add: LSTMModel_init_def)
  from Linear_forward_ok [OF this s] sel show ?thesis
    by (simp add: LSTMModel_forward_def)
qed

subsection \<open>The convolutional models on a valid batch\<close>

lemma CNNModel_forward_ok:
  assumes "CNNModel_init c m" and "valid_batch c x b n" and "0 < n"
  shows "\<exists>out. CNNModel_forward m x = Inr out \<and> has_shape out b (tag_dim c)"
proof -
  let ?p = "cnn_pad (cm_conv m)"
  from assms(1) have emb: "Embedding_init (vocab c) (embed_dim c) (padding_id c) (cm_embedding m)"
    and conv: "CNNLayer_init (embed_dim c) (hidden_dim c) (2 * ?p + 1) ?p (cm_conv m)"
    and lin: "Linear_init (hidden_dim c) (tag_dim c) (cm_linear m)"
    by (simp_all add: CNNModel_init_def CNNLayer_init_default_def)
  from Embedding_forward_ok [OF emb assms(2)] obtain e
    where e: "Embedding_forward (cm_embedding m) x = Inr e"
      and es: "has_shape3 e b n (embed_dim c)" by blast
  from assms(3) have "2 * ?p + 1 \<le> n + 2 * ?p" by simp
  from CNNLayer_forward_ok [OF conv es this] obtain f
    where f: "CNNLayer_forward (cm_conv m) e = Inr f"
      and fs: "has_shape3 f b n (hidden_dim c)" by auto
  from torch_max_ok [OF fs assms(3)] obtain p
    where p: "torch_max f = Inr p" and ps: "has_shape p b (hidden_dim c)" by blast
  from ps have "has_shape (relu2 p) b (hidden_dim c)" by simp
  from Linear_forward_ok [OF lin this] e f p show ?thesis
    by (simp add: CNNModel_forward_def)
qed

lemma torch_cat3_ok:
  assumes "has_shape a b d1" and "has_shape u b d2" and "has_shape w b d3"
  shows "\<exists>y. torch_cat3 a u w = Inr y \<and> has_shape y b (d1 + d2 + d3)"
proof -
  from assms have len: "length a = b" "length u = b" "length w = b"
    by (simp_all add: has_shape_def)
  have "length v = d1 + d2 + d3"
    if "v \<in> set (map (\<lambda>(u, v, w). u @ v @ w) (zip a (zip u w)))" for v
  proof -
    from that obtain p q r where "v = p @ q @ r" "p \<in> set a" "q \<in> set u" "r \<in> set w"
      by (auto elim!: in_set_zipE)
    with assms show ?thesis by (simp add: has_shape_def list_all_iff)
  qed
  with len show ?thesis by (simp add: torch_cat3_def has_shape_def list_all_iff)
qed

lemma TextCNNModel_branches:
  assumes "TextCNNModel_init c m" and "valid_batch c x b n" and "4 \<le> n"
  shows "\<exists>e f1 f2 f3. Embedding_forward (tc_embedding m) x = Inr e \<and>
           has_shape3 e b n (embed_dim c) \<and>
           CNNLayer_forward (tc_conv1 m) e = Inr f1 \<and> has_shape3 f1 b (n - 1) (hidden_dim c) \<and>
           CNNLayer_forward (tc_conv2 m) e = Inr f2 \<and> has_shape3 f2 b (n - 2) (hidden_dim c) \<and>
           CNNLayer_forward (tc_conv3 m) e = Inr f3 \<and> has_shape3 f3 b (n - 3) (hidden_dim c)"
proof -
  from assms(1) have emb: "Embedding_init (vocab c) (embed_dim c) (padding_id c) (tc_embedding m)"
    and c1: "CNNLayer_init (embed_dim c) (hidden_dim c) 2 0 (tc_conv1 m)"
    and c2: "CNNLayer_init (embed_dim c) (hidden_dim c) 3 0 (tc_conv2 m)"
    and c3: "CNNLayer_init (embed_dim c) (hidden_dim c) 4 0 (tc_conv3 m)"
    by (simp_all add: TextCNNModel_init_def)
  from Embedding_forward_ok [OF emb assms(2)] obtain e
    where e: "Embedding_forward (tc_embedding m) x = Inr e"
      and es: "has_shape3 e b n (embed_dim c)" by blast
  from assms(3) have le: "2 \<le> n + 2 * 0" "3 \<le> n + 2 * 0" "4 \<le> n + 2 * 0" by simp_all
  from CNNLayer_forward_ok [OF c1 es le(1)] obtain f1
    where f1: "CNNLayer_forward (tc_conv1 m) e = Inr f1"
      and s1: "has_shape3 f1 b (n - 1) (hidden_dim c)" by auto
  from CNNLayer_forward_ok [OF c2 es le(2)] obtain f2
    where f2: "CNNLayer_forward (tc_conv2 m) e = Inr f2"
      and s2: "has_shape3 f2 b (n - 2) (hidden_dim c)" by auto
  from CNNLayer_forward_ok [OF c3 es le(3)] obtain f3
    where f3: "CNNLayer_forward (tc_conv3 m) e = Inr f3"
      and s3: "has_shape3 f3 b (n - 3) (hidden_dim c)" by auto
  from e es f1 s1 f2 s2 f3 s3 show ?thesis by blast
qed

lemma TextCNNModel_forward_ok:
  assumes "TextCNNModel_init c m" and "valid_batch c x b n" and "4 \<le> n"
  shows "\<exists>out. TextCNNModel_forward m x = Inr out \<and> has_shape out b (tag_dim c)"
proof -
  from assms(1) have lin: "Linear_init (hidden_dim c * 3) (tag_dim c) (tc_linear m)"
    by (simp add: TextCNNModel_init_def)
  from TextCNNModel_branches [OF assms] obtain e f1 f2 f3
    where e: "Embedding_forward (tc_embedding m) x = Inr e"
      and f1: "CNNLayer_forward (tc_conv1 m) e = Inr f1"
      and s1: "has_shape3 f1 b (n - 1) (hidden_dim c)"
      and f2: "CNNLayer_forward (tc_conv2 m) e = Inr f2"
      and s2: "has_shape3 f2 b (n - 2) (hidden_dim c)"
      and f3: "CNNLayer_forward (tc_conv3 m) e = Inr f3"
      and s3: "has_shape3 f3 b (n - 3) (hidden_dim c)" by blast
  from assms(3) have pos: "0 < n - 1" "0 < n - 2" "0 < n - 3" by simp_all
  from s1 have "has_shape3 (relu f1) b (n - 1) (hidden_dim c)" by simp
  from torch_max_ok [OF this pos(1)] obtain p1
    where p1: "torch_max (relu f1) = Inr p1" and q1: "has_shape p1 b (hidden_dim c)" by blast
  from s2 have "has_shape3 (relu f2) b (n - 2) (hidden_dim c)" by simp
  from torch_max_ok [OF this pos(2)] obtain p2
    where p2: "torch_max (relu f2) = Inr p2" and q2: "has_shape p2 b (hidden_dim c)" by blast
  from s3 have "has_shape3 (relu f3) b (n - 3) (hidden_dim c)" by simp
  from torch_max_ok [OF this pos(3)] obtain p3
    where p3: "torch_max (relu f3) = Inr p3" and q3: "has_shape p3 b (hidden_dim c)" by blast
  from torch_cat3_ok [OF q1 q2 q3] obtain feat
    where feat: "torch_cat3 p1 p2 p3 = Inr feat"
      and fs: "has_shape feat b (hidden_dim c + hidden_dim c + hidden_dim c)" by blast
  have "hidden_dim c + hidden_dim c + hidden_dim c = hidden_dim c * 3" by simp
  with fs have "has_shape feat b (hidden_dim c * 3)" by simp
  from Linear_forward_ok [OF lin this] e f1 f2 f3 p1 p2 p3 feat show ?thesis
    by (simp add: TextCNNModel_forward_def)
qed

lemma TextCNNModel_forward_small:
  assumes "TextCNNModel_init c m" and "valid_batch c x b n" and "n < 4" and "0 < b"
  shows "TextCNNModel_forward m x = Inl SizeError"
proof -
  from assms(1) have emb: "Embedding_init (vocab c) (embed_dim c) (padding_id c) (tc_embedding m)"
    and c1: "CNNLayer_init (embed_dim c) (hidden_dim c) 2 0 (tc_conv1 m)"
    and c2: "CNNLayer_init (embed_dim c) (hidden_dim c) 3 0 (tc_conv2 m)"
    and c3: "CNNLayer_init (embed_dim c) (hidden_dim c) 4 0 (tc_conv3 m)"
    by (simp_all add: TextCNNModel_init_def)
  from Embedding_forward_ok [OF emb assms(2)] obtain e
    where e: "Embedding_forward (tc_embedding m) x = Inr e"
      and es: "has_shape3 e b n (embed_dim c)" by blast
  from assms(3) have small: "n + 2 * 0 < 4" by simp
  have f3: "CNNLayer_forward (tc_conv3 m) e = Inl SizeError"
    by (rule CNNLayer_forward_small [OF c3 es small assms(4)])
  have r1: "CNNLayer_forward (tc_conv1 m) e = Inl SizeError \<or>
            (\<exists>f1. CNNLayer_forward (tc_conv1 m) e = Inr f1)"
  proof (cases "n < 2")
    case True
    then have "n + 2 * 0 < 2" by simp
    from CNNLayer_forward_small [OF c1 es this assms(4)] show ?thesis by simp
  next
    case False
    then have "2 \<le> n + 2 * 0" by simp
    from CNNLayer_forward_ok [OF c1 es this] show ?thesis by blast
  qed
  have r2: "CNNLayer_forward (tc_conv2 m) e = Inl SizeError \<or>
            (\<exists>f2. CNNLayer_forward (tc_conv2 m) e = Inr f2)"
  proof (cases "n < 3")
    case True
    then have "n + 2 * 0 < 3" by simp
    from CNNLayer_forward_small [OF c2 es this assms(4)] show ?thesis by simp
  next
    case False
    then have "3 \<le> n + 2 * 0" by simp
    from CNNLayer_forward_ok [OF c2 es this] show ?thesis by blast
  qed
  from r1 r2 f3 e show ?thesis
    by (auto simp: TextCNNModel_forward_def)
qed

subsection \<open>RCNNModel on a valid batch\<close>

lemma Linear_forward3_bad:
  assumes "Linear_init i out l" and "has_shape3 x b n d" and "d \<noteq> i"
    and "0 < b" and "0 < n"
  shows "Linear_forward3 l x = Inl ShapeError"
proof -
  from assms(2,4) have "x \<noteq> []" by (auto simp: has_shape3_def)
  moreover have "map_err (Linear_vec l) s = Inl ShapeError" if "s \<in> set x" for s
  proof -
    from that assms(2) have s: "has_shape s n d" by (simp add: has_shape3_def list_all_iff)
    with assms(5) have "s \<noteq> []" by (auto simp: has_shape_def)
    moreover have "Linear_vec l v = Inl ShapeError" if "v \<in> set s" for v
      using that s assms(1,3) Linear_vec_bad [of i out l v]
      by (simp add: has_shape_def list_all_iff)
    ultimately show ?thesis by (rule map_err_fail)
  qed
  ultimately show ?thesis unfolding Linear_forward3_def by (rule map_err_fail)
qed

lemma RCNNModel_context:
  assumes "RCNNModel_init c m" and "valid_batch c x b n"
  shows "\<exists>word context. Embedding_forward (rc_embedding m) x = Inr word \<and>
           has_shape3 word b n (embed_dim c) \<and>
           LSTMLayer_forward (rc_bilstm m) word = Inr context \<and>
           has_shape3 context b n (2 * (embed_dim c div 2)) \<and>
           torch_cat word context = Inr (map2 (map2 (@)) word context) \<and>
           has_shape3 (map2 (map2 (@)) word context) b n
             (embed_dim c + 2 * (embed_dim c div 2))"
proof -
  from assms(1) have emb: "Embedding_init (vocab c) (embed_dim c) (padding_id c) (rc_embedding m)"
    and lstm: "LSTMLayer_init (embed_dim c) (embed_dim c div 2) 1 True (rc_bilstm m)"
    by (simp_all add: RCNNModel_init_def)
  from Embedding_forward_ok [OF emb assms(2)] obtain word
    where w: "Embedding_forward (rc_embedding m) x = Inr word"
      and ws: "has_shape3 word b n (embed_dim c)" by blast
  from LSTMLayer_forward_ok [OF lstm ws] obtain ctx
    where k: "LSTMLayer_forward (rc_bilstm m) word = Inr ctx"
      and ks: "has_shape3 ctx b n (2 * (embed_dim c div 2))" by auto
  from torch_cat_ok [OF ws ks] w ws k ks show ?thesis by blast
qed

lemma RCNNModel_forward_odd:
  assumes "RCNNModel_init c m" and "valid_batch c x b n" and "odd (embed_dim c)"
    and "0 < b" and "0 < n"
  shows "RCNNModel_forward m x = Inl ShapeError"
proof -
  from assms(1) have enc: "Linear_init (2 * embed_dim c) (hidden_dim c) (rc_encoder m)"
    by (simp add: RCNNModel_init_def)
  from RCNNModel_context [OF assms(1,2)] obtain word ctx
    where w: "Embedding_forward (rc_embedding m) x = Inr word"
      and k: "LSTMLayer_forward (rc_bilstm m) word = Inr ctx"
      and cat: "torch_cat word ctx = Inr (map2 (map2 (@)) word ctx)"
      and cs: "has_shape3 (map2 (map2 (@)) word ctx) b n
                 (embed_dim c + 2 * (embed_dim c div 2))" by blast
  from assms(3) have "embed_dim c + 2 * (embed_dim c div 2) \<noteq> 2 * embed_dim c"
    by presburger
  from Linear_forward3_bad [OF enc cs this assms(4,5)] w k cat show ?thesis
    by (simp add: RCNNModel_forward_def)
qed

lemma torch_max_tanh3:
  assumes "has_shape3 h b n d" and "0 < n"
  shows "torch_max (tanh3 h) =
           Inr (map (\<lambda>s. map (\<lambda>j. Max ((\<lambda>t. tanh (s ! t ! j)) ` {..<n})) [0..<d]) h) \<and>
         has_shape (map (\<lambda>s. map (\<lambda>j. Max ((\<lambda>t. tanh (s ! t ! j)) ` {..<n})) [0..<d]) h) b d"
proof -
  from assms(1) have "has_shape3 (tanh3 h) b n d" by simp
  from torch_max_ok [OF this assms(2)]
  have tm: "torch_max (tanh3 h) =
              Inr (map (\<lambda>s. map (\<lambda>j. Max ((\<lambda>t. s ! t ! j) ` {..<n})) [0..<d]) (tanh3 h))"
    by simp
  have "map (\<lambda>j. Max ((\<lambda>t. map (map tanh) s ! t ! j) ` {..<n})) [0..<d] =
        map (\<lambda>j. Max ((\<lambda>t. tanh (s ! t ! j)) ` {..<n})) [0..<d]" if "s \<in> set h" for s
  proof (rule map_cong [OF refl])
    fix j assume "j \<in> set [0..<d]"
    then have j: "j < d" by simp
    from that assms(1) have s: "length s = n" "\<forall>v \<in> set s. length v = d"
      by (simp_all add: has_shape3_def has_shape_def list_all_iff)
    have "(\<lambda>t. map (map tanh) s ! t ! j) ` {..<n} = (\<lambda>t. tanh (s ! t ! j)) ` {..<n}"
    proof (rule image_cong [OF refl])
      fix t assume "t \<in> {..<n}"
      with s have "t < length s" and "length (s ! t) = d" by simp_all
      with j show "map (map tanh) s ! t ! j = tanh (s ! t ! j)" by simp
    qed
    then show "Max ((\<lambda>t. map (map tanh) s ! t ! j) ` {..<n}) =
               Max ((\<lambda>t. tanh (s ! t ! j)) ` {..<n})" by simp
  qed
  then have "map (\<lambda>s. map (\<lambda>j. Max ((\<lambda>t. s ! t ! j) ` {..<n})) [0..<d]) (tanh3 h) =
             map (\<lambda>s. map (\<lambda>j. Max ((\<lambda>t. tanh (s ! t ! j)) ` {..<n})) [0..<d]) h"
    by (simp add: tanh3_def)
  with tm assms(1) show ?thesis
    by (simp add: has_shape3_def has_shape_def list_all_iff)
qed

lemma RCNNModel_forward_even:
  assumes "RCNNModel_init c m" and "valid_batch c x b n" and "even (embed_dim c)"
    and "0 < n"
  shows "\<exists>word context h out.
           Embedding_forward (rc_embedding m) x = Inr word \<and>
           has_shape3 word b n (embed_dim c) \<and>
           LSTMLayer_forward (rc_bilstm m) word = Inr context \<and>
           has_shape3 context b n (embed_dim c) \<and>
           torch_cat word context = Inr (map2 (map2 (@)) word context) \<and>
           has_shape3 (map2 (map2 (@)) word context) b n (2 * embed_dim c) \<and>
           Linear_forward3 (rc_encoder m) (map2 (map2 (@)) word context) = Inr h \<and>
           has_shape3 h b n (hidden_dim c) \<and>
           torch_max (tanh3 h) =
             Inr (map (\<lambda>s. map (\<lambda>j. Max ((\<lambda>t. tanh (s ! t ! j)) ` {..<n}))
                              [0..<hidden_dim c]) h) \<and>
           RCNNModel_forward m x =
             Linear_forward (rc_linear m)
               (map (\<lambda>s. map (\<lambda>j. Max ((\<lambda>t. tanh (s ! t ! j)) ` {..<n}))
                              [0..<hidden_dim c]) h) \<and>
           RCNNModel_forward m x = Inr out \<and> has_shape out b (tag_dim c)"
proof -
  from assms(1) have enc: "Linear_init (2 * embed_dim c) (hidden_dim c) (rc_encoder m)"
    and lin: "Linear_init (hidden_dim c) (tag_dim c) (rc_linear m)"
    by (simp_all add: RCNNModel_init_def)
  from assms(3) have half: "2 * (embed_dim c div 2) = embed_dim c"
    and dbl: "embed_dim c + 2 * (embed_dim c div 2) = 2 * embed_dim c"
    by simp_all
  from RCNNModel_context [OF assms(1,2)] obtain word ctx
    where w: "Embedding_forward (rc_embedding m) x = Inr word"
      and ws: "has_shape3 word b n (embed_dim c)"
      and k: "LSTMLayer_forward (rc_bilstm m) word = Inr ctx"
      and ks0: "has_shape3 ctx b n (2 * (embed_dim c div 2))"
      and cat: "torch_cat word ctx = Inr (map2 (map2 (@)) word ctx)"
      and cs0: "has_shape3 (map2 (map2 (@)) word ctx) b n
                  (embed_dim c + 2 * (embed_dim c div 2))"
    by blast
  from ks0 have ks: "has_shape3 ctx b n (embed_dim c)" by (simp only: half)
  from cs0 have cs: "has_shape3 (map2 (map2 (@)) word ctx) b n (2 * embed_dim c)"
    by (simp only: dbl)
  from Linear_forward3_ok [OF enc cs] obtain h
    where h: "Linear_forward3 (rc_encoder m) (map2 (map2 (@)) word ctx) = Inr h"
      and hs: "has_shape3 h b n (hidden_dim c)" by blast
  let ?pool = "map (\<lambda>s. map (\<lambda>j. Max ((\<lambda>t. tanh (s ! t ! j)) ` {..<n})) [0..<hidden_dim c]) h"
  from torch_max_tanh3 [OF hs assms(4)]
  have p: "torch_max (tanh3 h) = Inr ?pool" and ps: "has_shape ?pool b (hidden_dim c)"
    by simp_all
  from w k cat h p have fw: "RCNNModel_forward m x = Linear_forward (rc_linear m) ?pool"
    by (simp add: RCNNModel_forward_def)
  from Linear_forward_ok [OF lin ps] obtain out
    where "Linear_forward (rc_linear m) ?pool = Inr out" and "has_shape out b (tag_dim c)"
    by blast
  with fw have "RCNNModel_forward m x = Inr out \<and> has_shape out b (tag_dim c)" by simp
  with w ws k ks cat cs h hs p fw show ?thesis by blast
qed

subsection \<open>The example models are instances of their configurations\<close>

lemma example_embedding_init: "Embedding_init 100 e 0 (example_embedding e)"
  by (simp add: Embedding_init_def example_embedding_def has_shape_def list_all_iff)

lemma example_linear_init: "Linear_init i out (example_linear i out)"
  by (simp add: Linear_init_def example_linear_def has_shape_def list_all_iff)

lemma example_conv_init: "CNNLayer_init i out w p (example_conv i out w p)"
  by (simp add: CNNLayer_init_def example_conv_def has_shape_def list_all_iff)

lemma example_cell_ok: "cell_ok k (example_cell k)"
  by (simp add: cell_ok_def example_cell_def)

lemma example_LSTMModel_init: "LSTMModel_init (example_config 1 1) example_LSTMModel"
  by (simp add: LSTMModel_init_def example_LSTMModel_def example_config_def
      example_embedding_init example_linear_init LSTMLayer_init_def example_cell_ok)

lemma example_CNNModel_init: "CNNModel_init (example_config 8 16) example_CNNModel"
proof -
  have "cnn_pad (example_conv 8 16 3 1) = 1" by (simp add: example_conv_def)
  moreover have "CNNLayer_init 8 16 (2 * 1 + 1) 1 (example_conv 8 16 3 1)"
    using example_conv_init [of 8 16 3 1] by simp
  ultimately have "CNNLayer_init_default 8 16 (example_conv 8 16 3 1)"
    by (simp add: CNNLayer_init_default_def)
  then show ?thesis
    by (simp add: CNNModel_init_def example_CNNModel_def example_config_def
        example_embedding_init example_linear_init)
qed

lemma example_TextCNNModel_init:
  "TextCNNModel_init (example_config 8 16) example_TextCNNModel"
  by (simp add: TextCNNModel_init_def example_TextCNNModel_def example_config_def
      example_embedding_init example_linear_init example_conv_init)

lemma example_RCNNModel_init: "RCNNModel_init (example_config e 1) (example_RCNNModel e)"
  by (simp add: RCNNModel_init_def example_RCNNModel_def example_config_def
      example_embedding_init example_linear_init LSTMLayer_init_def example_cell_ok)

lemma example_DPCNNModel_init: "DPCNNModel_init (example_config 1 1) example_DPCNNModel"
  by (simp add: DPCNNModel_init_def example_DPCNNModel_def example_config_def
      example_embedding_init example_linear_init example_conv_init)

lemma valid_batch_scenario:
  "valid_batch (example_config e h) [[5, 6, 7, 0, 0], [5, 6, 7, 8, 9]] 2 5"
  by (simp add: valid_batch_def has_shape_def example_config_def)

subsection \<open>The remaining models on a valid batch\<close>

lemma BiLSTMAttnModel_forward_ok:
  assumes "BiLSTMAttnModel_init c m" and "valid_batch c x b n" and "even (hidden_dim c)"
  shows "\<exists>out. BiLSTMAttnModel_forward m x = Inr out \<and> has_shape out b (tag_dim c)"
proof -
  from assms(1) have emb: "Embedding_init (vocab c) (embed_dim c) (padding_id c) (ba_embedding m)"
    and lstm: "LSTMLayer_init (embed_dim c) (hidden_dim c div 2) 1 True (ba_bilstm m)"
    and attn: "AttnLayer_init (hidden_dim c) (attn_dim c) (ba_attn m)"
    and lin: "Linear_init (hidden_dim c) (tag_dim c) (ba_linear m)"
    by (simp_all add: BiLSTMAttnModel_init_def)
  from assms(3) have half: "2 * (hidden_dim c div 2) = hidden_dim c" by simp
  from Embedding_forward_ok [OF emb assms(2)] obtain e
    where e: "Embedding_forward (ba_embedding m) x = Inr e"
      and es: "has_shape3 e b n (embed_dim c)" by blast
  from LSTMLayer_forward_ok [OF lstm es] obtain h
    where h: "LSTMLayer_forward (ba_bilstm m) e = Inr h"
      and hs0: "has_shape3 h b n (2 * (hidden_dim c div 2))" by auto
  from hs0 have hs: "has_shape3 h b n (hidden_dim c)" by (simp only: half)
  from AttnLayer_forward_ok [OF attn hs] obtain a
    where a: "AttnLayer_forward (ba_attn m) h = Inr a"
      and as: "has_shape a b (hidden_dim c)" by blast
  from Linear_forward_ok [OF lin as] e h a show ?thesis
    by (simp add: BiLSTMAttnModel_forward_def)
qed

lemma CNNAttnModel_forward_ok:
  assumes "CNNAttnModel_init c m" and "valid_batch c x b n" and "0 < n"
  shows "\<exists>out. CNNAttnModel_forward m x = Inr out \<and> has_shape out b (tag_dim c)"
proof -
  let ?p = "cnn_pad (ca_cnn m)"
  from assms(1) have emb: "Embedding_init (vocab c) (embed_dim c) (padding_id c) (ca_embedding m)"
    and conv: "CNNLayer_init (embed_dim c) (hidden_dim c) (2 * ?p + 1) ?p (ca_cnn m)"
    and attn: "AttnLayer_init (hidden_dim c) (attn_dim c) (ca_attn m)"
    and lin: "Linear_init (hidden_dim c) (tag_dim c) (ca_linear m)"
    by (simp_all add: CNNAttnModel_init_def CNNLayer_init_default_def)
  from Embedding_forward_ok [OF emb assms(2)] obtain e
    where e: "Embedding_forward (ca_embedding m) x = Inr e"
      and es: "has_shape3 e b n (embed_dim c)" by blast
  from assms(3) have "2 * ?p + 1 \<le> n + 2 * ?p" by simp
  from CNNLayer_forward_ok [OF conv es this] obtain f
    where f: "CNNLayer_forward (ca_cnn m) e = Inr f"
      and fs: "has_shape3 f b n (hidden_dim c)" by auto
  from fs have "has_shape3 (relu f) b n (hidden_dim c)" by simp
  from AttnLayer_forward_ok [OF attn this] obtain a
    where a: "AttnLayer_forward (ca_attn m) (relu f) = Inr a"
      and as: "has_shape a b (hidden_dim c)" by blast
  from Linear_forward_ok [OF lin as] e f a show ?thesis
    by (simp add: CNNAttnModel_forward_def)
qed

lemma DPCNNModel_residual:
  assumes "DPCNNModel_init c m" and "valid_batch c x b n" and "0 < n"
  shows "\<exists>emb region c1 c2. Embedding_forward (dp_embedding m) x = Inr emb \<and>
           CNNLayer_forward (dp_region_embedding m) emb = Inr region \<and>
           CNNLayer_forward (dp_conv1 m) (relu region) = Inr c1 \<and>
           CNNLayer_forward (dp_conv2 m) (relu c1) = Inr c2 \<and>
           torch_add c2 region = Inr (map2 (map2 (map2 (+))) c2 region) \<and>
           has_shape3 (map2 (map2 (map2 (+))) c2 region) b n 250"
proof -
  from assms(1) have emb: "Embedding_init (vocab c) (embed_dim c) (padding_id c) (dp_embedding m)"
    and r: "CNNLayer_init (embed_dim c) 250 3 1 (dp_region_embedding m)"
    and k1: "CNNLayer_init 250 250 3 1 (dp_conv1 m)"
    and k2: "CNNLayer_init 250 250 3 1 (dp_conv2 m)"
    by (simp_all add: DPCNNModel_init_def Let_def)
  from assms(3) have le: "3 \<le> n + 2 * 1" and eq: "n + 2 * 1 + 1 - 3 = n" by simp_all
  from Embedding_forward_ok [OF emb assms(2)] obtain e
    where e: "Embedding_forward (dp_embedding m) x = Inr e"
      and es: "has_shape3 e b n (embed_dim c)" by blast
  from CNNLayer_forward_ok [OF r es le] obtain region
    where rg: "CNNLayer_forward (dp_region_embedding m) e = Inr region"
      and rs0: "has_shape3 region b (n + 2 * 1 + 1 - 3) 250" by blast
  from rs0 have rs: "has_shape3 region b n 250" by (simp only: eq)
  then have "has_shape3 (relu region) b n 250" by simp
  from CNNLayer_forward_ok [OF k1 this le] obtain c1
    where c1: "CNNLayer_forward (dp_conv1 m) (relu region) = Inr c1"
      and s10: "has_shape3 c1 b (n + 2 * 1 + 1 - 3) 250" by blast
  from s10 have "has_shape3 c1 b n 250" by (simp only: eq)
  then have "has_shape3 (relu c1) b n 250" by simp
  from CNNLayer_forward_ok [OF k2 this le] obtain c2
    where c2: "CNNLayer_forward (dp_conv2 m) (relu c1) = Inr c2"
      and s20: "has_shape3 c2 b (n + 2 * 1 + 1 - 3) 250" by blast
  from s20 have s2: "has_shape3 c2 b n 250" by (simp only: eq)
  from torch_add_ok [OF s2 rs] e rg c1 c2 show ?thesis by blast
qed

lemma Sequential_forward_Nil: "Sequential_forward [] s = Inr s"
  by (simp add: Sequential_forward_def)

lemma DPCNNModel_no_blocks:
  assumes "DPCNNModel_init c m" and "n_block c \<le> 0"
  shows "dp_blocks m = []"
  using assms by (simp add: DPCNNModel_init_def Let_def)

lemma DPCNNModel_forward_ok:
  assumes "DPCNNModel_init c m" and "valid_batch c x b n" and "0 < n" and "n_block c \<le> 0"
  shows "\<exists>out. DPCNNModel_forward m x = Inr out \<and> has_shape out b (tag_dim c)"
proof -
  from assms(1) have lin: "Linear_init 250 (tag_dim c) (dp_linear m)"
    by (simp add: DPCNNModel_init_def Let_def)
  from DPCNNModel_residual [OF assms(1-3)] obtain emb region c1 c2
    where e: "Embedding_forward (dp_embedding m) x = Inr emb"
      and rg: "CNNLayer_forward (dp_region_embedding m) emb = Inr region"
      and c1: "CNNLayer_forward (dp_conv1 m) (relu region) = Inr c1"
      and c2: "CNNLayer_forward (dp_conv2 m) (relu c1) = Inr c2"
      and add: "torch_add c2 region = Inr (map2 (map2 (map2 (+))) c2 region)"
      and ss: "has_shape3 (map2 (map2 (map2 (+))) c2 region) b n 250" by blast
  from torch_max_ok [OF ss assms(3)] obtain p
    where p: "torch_max (map2 (map2 (map2 (+))) c2 region) = Inr p"
      and ps: "has_shape p b 250" by blast
  from Linear_forward_ok [OF lin ps] e rg c1 c2 add p DPCNNModel_no_blocks [OF assms(1,4)]
  show ?thesis
    by (simp add: DPCNNModel_forward_def Sequential_forward_Nil)
qed

lemma example_TextCNN_short:
  "valid_batch (example_config 8 16) [[5, 6, 7]] 1 3"
  by (simp add: valid_batch_def has_shape_def example_config_def)

lemma forward_accepts:
  assumes "model_init c m" and "valid_batch c x b n" and "accepts c m n"
  shows "\<exists>out. forward m x = Inr out \<and> has_shape out b (tag_dim c)"
proof (cases m)
  case (LSTM lm)
  with assms LSTMModel_forward_ok [of c lm x b n] show ?thesis by simp
next
  case (CNN cm)
  with assms CNNModel_forward_ok [of c cm x b n] show ?thesis by simp
next
  case (TextCNN tm)
  with assms TextCNNModel_forward_ok [of c tm x b n] show ?thesis by simp
next
  case (DPCNN dm)
  with assms DPCNNModel_forward_ok [of c dm x b n] show ?thesis by simp
next
  case (BiLSTMAttn bm)
  with assms BiLSTMAttnModel_forward_ok [of c bm x b n] show ?thesis by simp
next
  case (CNNAttn am)
  with assms CNNAttnModel_forward_ok [of c am x b n] show ?thesis by simp
next
  case (RCNN rm)
  with assms RCNNModel_forward_even [of c rm x b n] show ?thesis by auto
qed

subsection \<open>A unidirectional encoder reads from left to right\<close>

lemma scan_cell_append:
  "scan_cell f s (xs @ ys) = scan_cell f s xs @ scan_cell f (foldl f s xs) ys"
  by (induction xs arbitrary: s) simp_all

lemma run_layer_uni_append:
  "\<exists>zs. run_layer h False (xs @ ys) fb = run_layer h False xs fb @ zs"
  by (simp add: run_layer_def Let_def scan_cell_append)

lemma foldl_run_layer_prefix:
  "\<exists>zs. foldl (run_layer h False) (xs @ ys) cs = foldl (run_layer h False) xs cs @ zs"
proof (induction cs arbitrary: xs ys)
  case Nil
  then show ?case by simp
next
  case (Cons fb cs)
  from run_layer_uni_append [of h xs ys fb] obtain zs
    where "run_layer h False (xs @ ys) fb = run_layer h False xs fb @ zs" by blast
  with Cons.IH [of "run_layer h False xs fb" zs] show ?case by simp
qed

lemma foldl_run_layer_last:
  assumes "xs \<noteq> []"
  shows "foldl (run_layer h False) (xs @ ys) cs ! (length xs - 1) =
           last (foldl (run_layer h False) xs cs)"
proof -
  from foldl_run_layer_prefix [of h xs ys cs] obtain zs
    where eq: "foldl (run_layer h False) (xs @ ys) cs = foldl (run_layer h False) xs cs @ zs"
    by blast
  let ?a = "foldl (run_layer h False) xs cs"
  have len: "length ?a = length xs" by simp
  from assms have lt: "length xs - 1 < length xs" by (cases xs) simp_all
  from assms have "0 < length xs" by simp
  then have "0 < length ?a" by (simp only: len)
  then have ne: "?a \<noteq> []" by (cases ?a) simp_all
  from lt len have "(?a @ zs) ! (length xs - 1) = ?a ! (length xs - 1)"
    by (simp add: nth_append)
  also have "?a ! (length xs - 1) = last ?a"
    using last_conv_nth [OF ne] by simp
  finally show ?thesis unfolding eq .
qed

subsection \<open>The embedding of a valid batch\<close>

lemma Embedding_row_eq:
  assumes "list_all (\<lambda>t. 0 \<le> t \<and> t < int (length (emb_weight e))) r"
  shows "map_err (Embedding_lookup e) r = Inr (map (\<lambda>t. emb_weight e ! nat t) r)"
  using assms by (intro map_err_map) (simp add: Embedding_lookup_def list_all_iff)

lemma Embedding_forward_single:
  assumes "Embedding_init (vocab c) d p e" and "list_all (\<lambda>t. 0 \<le> t \<and> t < int (vocab c)) r"
  shows "Embedding_forward e [r] = Inr [map (\<lambda>t. emb_weight e ! nat t) r]"
proof -
  from assms(1) have "length (emb_weight e) = vocab c"
    by (simp add: Embedding_init_def has_shape_def)
  with assms(2) Embedding_row_eq [of e r] show ?thesis
    by (simp add: Embedding_forward_def)
qed

lemma count_padding_append:
  assumes "p \<notin> set toks"
  shows "length (filter (\<lambda>t. t = p) (toks @ replicate k p)) = k"
proof -
  from assms have "filter (\<lambda>t. t = p) toks = []" by (auto simp: filter_empty_conv)
  then show ?thesis by simp
qed

lemma LSTMModel_select_padded:
  assumes "LSTMModel_init c m" and "toks \<noteq> []"
    and "list_all (\<lambda>t. 0 \<le> t \<and> t < int (vocab c)) toks"
    and "padding_id c \<notin> set toks"
    and "0 \<le> padding_id c" and "padding_id c < int (vocab c)"
  shows "LSTMModel_select m [toks @ replicate k (padding_id c)] =
           Inr [last (foldl (run_layer (hidden_dim c) False)
                        (map (\<lambda>t. emb_weight (lm_embedding m) ! nat t) toks)
                        (lstm_cells (lm_lstm m)))]"
proof -
  let ?r = "toks @ replicate k (padding_id c)"
  let ?n = "length toks + k"
  let ?g = "\<lambda>t. emb_weight (lm_embedding m) ! nat t"
  let ?enc = "\<lambda>s. foldl (run_layer (hidden_dim c) False) s (lstm_cells (lm_lstm m))"
  from assms(1) have emb: "Embedding_init (vocab c) (embed_dim c) (padding_id c) (lm_embedding m)"
    by (simp add: LSTMModel_init_def)
  from assms(3,5,6) have ok: "list_all (\<lambda>t. 0 \<le> t \<and> t < int (vocab c)) ?r"
    by (auto simp: list_all_iff)
  then have vb: "valid_batch c [?r] 1 ?n"
    by (simp add: valid_batch_def has_shape_def)
  from assms(2) have pos: "0 < ?n" by simp
  from LSTMModel_select_eq [OF assms(1) vb pos] obtain e
    where e: "Embedding_forward (lm_embedding m) [?r] = Inr e"
      and sel: "LSTMModel_select m [?r] =
          Inr (map (\<lambda>i. ?enc (e ! i) !
                 nat ((cal_seq_len [?r] (int ?n) (padding_id c) ! i - 1) mod int ?n)) [0..<1])"
    by blast
  from e Embedding_forward_single [OF emb ok] have "Inr e = (Inr [map ?g ?r] :: error + tensor3)"
    by (simp only:)
  then have "e = [map ?g ?r]" by (simp only: sum.inject)
  then have e0: "e ! 0 = map ?g toks @ map ?g (replicate k (padding_id c))"
    by (simp only: nth_Cons_0 map_append)
  have "cal_seq_len [?r] (int ?n) (padding_id c) ! 0 = int (length toks)"
    using count_padding_append [OF assms(4), of k] by (simp add: cal_seq_len_def)
  moreover from assms(2) have "0 < length toks" by simp
  then have "nat ((int (length toks) - 1) mod int ?n) = length toks - 1"
    by (simp add: nat_diff_distrib')
  ultimately have idx:
    "nat ((cal_seq_len [?r] (int ?n) (padding_id c) ! 0 - 1) mod int ?n) = length (map ?g toks) - 1"
    by simp
  from assms(2) have "map ?g toks \<noteq> []" by simp
  from foldl_run_layer_last [OF this, of "hidden_dim c" "map ?g (replicate k (padding_id c))"
      "lstm_cells (lm_lstm m)"]
  have "?enc (e ! 0) ! (length (map ?g toks) - 1) = last (?enc (map ?g toks))"
    by (simp only: e0)
  with sel idx show ?thesis by simp
qed

lemma LSTMModel_gather:
  assumes "LSTMModel_init c m" and "valid_batch c x b n" and "0 < n"
  shows "\<exists>e h sel out.
           Embedding_forward (lm_embedding m) x = Inr e \<and>
           LSTMLayer_forward (lm_lstm m) e = Inr h \<and>
           has_shape3 h b n (hidden_dim c) \<and>
           LSTMModel_select m x = Inr sel \<and>
           sel = map (\<lambda>i. h ! i ! nat ((cal_seq_len x (int n) (padding_id c) ! i - 1) mod int n))
                   [0..<b] \<and>
           LSTMModel_forward m x = Linear_forward (lm_linear m) sel \<and>
           LSTMModel_forward m x = Inr out \<and> has_shape out b (tag_dim c)"
proof -
  let ?enc = "\<lambda>s. foldl (run_layer (hidden_dim c) False) s (lstm_cells (lm_lstm m))"
  let ?lens = "cal_seq_len x (int n) (padding_id c)"
  from LSTMModel_select_eq [OF assms] obtain e
    where e: "Embedding_forward (lm_embedding m) x = Inr e"
      and es: "has_shape3 e b n (embed_dim c)"
      and h: "LSTMLayer_forward (lm_lstm m) e = Inr (map ?enc e)"
      and hs: "has_shape3 (map ?enc e) b n (hidden_dim c)"
      and sel: "LSTMModel_select m x =
          Inr (map (\<lambda>i. ?enc (e ! i) ! nat ((?lens ! i - 1) mod int n)) [0..<b])"
    by blast
  from es have le: "length e = b" by (simp add: has_shape3_def)
  have eq: "map (\<lambda>i. ?enc (e ! i) ! nat ((?lens ! i - 1) mod int n)) [0..<b] =
            map (\<lambda>i. map ?enc e ! i ! nat ((?lens ! i - 1) mod int n)) [0..<b]"
    using le by (intro map_cong [OF refl]) simp
  let ?sel = "map (\<lambda>i. map ?enc e ! i ! nat ((?lens ! i - 1) mod int n)) [0..<b]"
  from sel eq have sel': "LSTMModel_select m x = Inr ?sel" by (simp only:)
  then have fw: "LSTMModel_forward m x = Linear_forward (lm_linear m) ?sel"
    by (simp add: LSTMModel_forward_def)
  from LSTMModel_forward_ok [OF assms] obtain out
    where out: "LSTMModel_forward m x = Inr out" "has_shape out b (tag_dim c)" by blast
  show ?thesis
  proof (intro exI conjI)
    show "Embedding_forward (lm_embedding m) x = Inr e" by (rule e)
    show "LSTMLayer_forward (lm_lstm m) e = Inr (map ?enc e)" by (rule h)
    show "has_shape3 (map ?enc e) b n (hidden_dim c)" by (rule hs)
    show "LSTMModel_select m x = Inr ?sel" by (rule sel')
    show "?sel = map (\<lambda>i. map ?enc e ! i ! nat ((?lens ! i - 1) mod int n)) [0..<b]"
      by (rule refl)
    show "LSTMModel_forward m x = Linear_forward (lm_linear m) ?sel" by (rule fw)
    show "LSTMModel_forward m x = Inr out" by (rule out(1))
    show "has_shape out b (tag_dim c)" by (rule out(2))
  qed
qed

section \<open>Claims\<close>

subsection \<open>C1: the shape of the scores\<close>

text \<open>
  C1, as the code has it. For every model of the family and every valid input batch,
  whenever forward returns, the result is a matrix of shape exactly
  (batch_size, tag_dim), whatever \<open>max_seq_len\<close>; and forward does return on every valid
  batch that the model accepts: at least one position, at least four for TextCNNModel,
  an even \<open>embed_dim\<close> for RCNNModel, an even \<open>hidden_dim\<close> for BiLSTMAttnModel, no blocks
  for DPCNNModel.
\<close>

theorem forward_shape:
  assumes "model_init c m" and "valid_batch c x batch_size max_seq_len"
  shows "(\<forall>out. forward m x = Inr out \<longrightarrow> has_shape out batch_size (tag_dim c)) \<and>
         (accepts c m max_seq_len \<longrightarrow>
            (\<exists>out. forward m x = Inr out \<and> has_shape out batch_size (tag_dim c)))"
proof (intro conjI allI impI)
  fix out assume "forward m x = Inr out"
  from forward_shape_if_returns [OF assms(1) this] assms(2)
  show "has_shape out batch_size (tag_dim c)"
    by (simp add: valid_batch_def has_shape_def)
next
  assume "accepts c m max_seq_len"
  with assms show "\<exists>out. forward m x = Inr out \<and> has_shape out batch_size (tag_dim c)"
    by (rule forward_accepts)
qed

theorem forward_shape_witness:
  "model_init (example_config 8 16) (CNN example_CNNModel) \<and>
   model_init (example_config 8 16) (TextCNN example_TextCNNModel) \<and>
   valid_batch (example_config 8 16) [[5, 6, 7, 0, 0], [5, 6, 7, 8, 9]] 2 5 \<and>
   accepts (example_config 8 16) (CNN example_CNNModel) 5 \<and>
   accepts (example_config 8 16) (TextCNN example_TextCNNModel) 5 \<and>
   (\<exists>out. forward (CNN example_CNNModel) [[5, 6, 7, 0, 0], [5, 6, 7, 8, 9]] = Inr out \<and>
      has_shape out 2 3) \<and>
   (\<exists>out. forward (TextCNN example_TextCNNModel) [[5, 6, 7, 0, 0], [5, 6, 7, 8, 9]] = Inr out \<and>
      has_shape out 2 3)"
proof -
  have i1: "model_init (example_config 8 16) (CNN example_CNNModel)"
    and i2: "model_init (example_config 8 16) (TextCNN example_TextCNNModel)"
    by (simp_all add: example_CNNModel_init example_TextCNNModel_init)
  have a1: "accepts (example_config 8 16) (CNN example_CNNModel) 5"
    and a2: "accepts (example_config 8 16) (TextCNN example_TextCNNModel) 5"
    by simp_all
  have t: "tag_dim (example_config 8 16) = 3" by (simp add: example_config_def)
  from forward_shape [OF i1 valid_batch_scenario [of 8 16]] a1
  have "\<exists>out. forward (CNN example_CNNModel) [[5, 6, 7, 0, 0], [5, 6, 7, 8, 9]] = Inr out \<and>
      has_shape out 2 3"
    unfolding t by blast
  moreover from forward_shape [OF i2 valid_batch_scenario [of 8 16]] a2
  have "\<exists>out. forward (TextCNN example_TextCNNModel) [[5, 6, 7, 0, 0], [5, 6, 7, 8, 9]] = Inr out \<and>
      has_shape out 2 3"
    unfolding t by blast
  ultimately show ?thesis using i1 i2 a1 a2 valid_batch_scenario [of 8 16] by blast
qed

theorem forward_shape_counterexample:
  "model_init (example_config 8 16) (TextCNN example_TextCNNModel) \<and>
   valid_batch (example_config 8 16) [[5, 6, 7]] 1 3 \<and>
   forward (TextCNN example_TextCNNModel) [[5, 6, 7]] = Inl SizeError"
proof -
  have "TextCNNModel_forward example_TextCNNModel [[5, 6, 7]] = Inl SizeError"
    by (rule TextCNNModel_forward_small [OF example_TextCNNModel_init example_TextCNN_short])
      simp_all
  with example_TextCNNModel_init example_TextCNN_short show ?thesis by simp
qed

subsection \<open>C2: the gather of LSTMModel\<close>

text \<open>
  C2, as the code has it. For every valid batch with at least one position,
  LSTMModel.forward computes the per-example lengths, runs the encoder over the full
  padded sequence, gathers for each example i the hidden state at the index
  \<open>length_i - 1\<close> of its row (an index of -1 counts from the end), and applies the
  linear head to the gathered vectors. For a row that is a non-empty sequence of real
  tokens followed by padding, that index is the last non-padding position.
\<close>

theorem LSTMModel_forward_gather:
  assumes "LSTMModel_init c m" and "valid_batch c x batch_size max_seq_len"
    and "0 < max_seq_len"
  shows "\<exists>e h sel out.
           Embedding_forward (lm_embedding m) x = Inr e \<and>
           LSTMLayer_forward (lm_lstm m) e = Inr h \<and>
           has_shape3 h batch_size max_seq_len (hidden_dim c) \<and>
           LSTMModel_select m x = Inr sel \<and>
           sel = map (\<lambda>i. h ! i ! nat ((cal_seq_len x (int max_seq_len) (padding_id c) ! i - 1)
                                       mod int max_seq_len)) [0..<batch_size] \<and>
           LSTMModel_forward m x = Linear_forward (lm_linear m) sel \<and>
           LSTMModel_forward m x = Inr out \<and> has_shape out batch_size (tag_dim c) \<and>
           (\<forall>i toks k. i < batch_size \<and> x ! i = toks @ replicate k (padding_id c) \<and>
                       toks \<noteq> [] \<and> padding_id c \<notin> set toks \<longrightarrow>
              cal_seq_len x (int max_seq_len) (padding_id c) ! i = int (length toks) \<and>
              sel ! i = h ! i ! (length toks - 1) \<and>
              x ! i ! (length toks - 1) \<noteq> padding_id c \<and>
              (\<forall>t. length toks \<le> t \<and> t < max_seq_len \<longrightarrow> x ! i ! t = padding_id c))"
proof -
  let ?lens = "cal_seq_len x (int max_seq_len) (padding_id c)"
  from LSTMModel_gather [OF assms] obtain e h sel out
    where e: "Embedding_forward (lm_embedding m) x = Inr e"
      and h: "LSTMLayer_forward (lm_lstm m) e = Inr h"
      and hs: "has_shape3 h batch_size max_seq_len (hidden_dim c)"
      and s: "LSTMModel_select m x = Inr sel"
      and sel: "sel = map (\<lambda>i. h ! i ! nat ((?lens ! i - 1) mod int max_seq_len)) [0..<batch_size]"
      and fw: "LSTMModel_forward m x = Linear_forward (lm_linear m) sel"
      and out: "LSTMModel_forward m x = Inr out" "has_shape out batch_size (tag_dim c)"
    by blast
  from assms(2) have lx: "length x = batch_size"
    and rows: "\<And>i. i < batch_size \<Longrightarrow> length (x ! i) = max_seq_len"
    by (simp_all add: valid_batch_def has_shape_def list_all_length)
  have padded: "?lens ! i = int (length toks) \<and>
                sel ! i = h ! i ! (length toks - 1) \<and>
                x ! i ! (length toks - 1) \<noteq> padding_id c \<and>
                (\<forall>t. length toks \<le> t \<and> t < max_seq_len \<longrightarrow> x ! i ! t = padding_id c)"
    if i: "i < batch_size" and r: "x ! i = toks @ replicate k (padding_id c)"
      and ne: "toks \<noteq> []" and np: "padding_id c \<notin> set toks" for i toks k
  proof -
    from rows [OF i] r have n: "max_seq_len = length toks + k" by simp
    from i lx r count_padding_append [OF np, of k] n
    have len: "?lens ! i = int (length toks)"
      by (simp add: cal_seq_len_nth)
    from ne have pos: "0 < length toks" by simp
    then have "nat ((int (length toks) - 1) mod int max_seq_len) = length toks - 1"
      unfolding n by (simp add: nat_diff_distrib')
    with sel i len have si: "sel ! i = h ! i ! (length toks - 1)" by simp
    from pos have lt: "length toks - 1 < length toks" by simp
    then have "x ! i ! (length toks - 1) = toks ! (length toks - 1)"
      unfolding r by (simp add: nth_append)
    moreover from lt have "toks ! (length toks - 1) \<in> set toks" by (rule nth_mem)
    ultimately have real: "x ! i ! (length toks - 1) \<noteq> padding_id c"
      using np by auto
    have "x ! i ! t = padding_id c" if "length toks \<le> t" "t < max_seq_len" for t
      using that unfolding r n by (simp add: nth_append)
    with len si real show ?thesis by blast
  qed
  show ?thesis
  proof (intro exI conjI allI impI)
    show "Embedding_forward (lm_embedding m) x = Inr e" by (rule e)
    show "LSTMLayer_forward (lm_lstm m) e = Inr h" by (rule h)
    show "has_shape3 h batch_size max_seq_len (hidden_dim c)" by (rule hs)
    show "LSTMModel_select m x = Inr sel" by (rule s)
    show "sel = map (\<lambda>i. h ! i ! nat ((?lens ! i - 1) mod int max_seq_len)) [0..<batch_size]"
      by (rule sel)
    show "LSTMModel_forward m x = Linear_forward (lm_linear m) sel" by (rule fw)
    show "LSTMModel_forward m x = Inr out" by (rule out(1))
    show "has_shape out batch_size (tag_dim c)" by (rule out(2))
  next
    fix i toks k
    assume a: "i < batch_size \<and> x ! i = toks @ replicate k (padding_id c) \<and>
               toks \<noteq> [] \<and> padding_id c \<notin> set toks"
    then have p: "?lens ! i = int (length toks) \<and>
                sel ! i = h ! i ! (length toks - 1) \<and>
                x ! i ! (length toks - 1) \<noteq> padding_id c \<and>
                (\<forall>t. length toks \<le> t \<and> t < max_seq_len \<longrightarrow> x ! i ! t = padding_id c)"
      using padded [of i toks k] by blast
    from p show "?lens ! i = int (length toks)" by (rule conjunct1)
    from p show "sel ! i = h ! i ! (length toks - 1)" by blast
    from p show "x ! i ! (length toks - 1) \<noteq> padding_id c" by blast
    fix t assume "length toks \<le> t \<and> t < max_seq_len"
    with p show "x ! i ! t = padding_id c" by blast
  qed
qed

theorem LSTMModel_forward_gather_witness:
  "LSTMModel_init (example_config 1 1) example_LSTMModel \<and>
   valid_batch (example_config 1 1) [[5, 6, 7, 0, 0], [5, 6, 7, 8, 9]] 2 5 \<and>
   (\<exists>e h sel out.
      Embedding_forward (lm_embedding example_LSTMModel) [[5, 6, 7, 0, 0], [5, 6, 7, 8, 9]] = Inr e \<and>
      LSTMLayer_forward (lm_lstm example_LSTMModel) e = Inr h \<and>
      LSTMModel_select example_LSTMModel [[5, 6, 7, 0, 0], [5, 6, 7, 8, 9]] = Inr sel \<and>
      sel ! 0 = h ! 0 ! 2 \<and>
      LSTMModel_forward example_LSTMModel [[5, 6, 7, 0, 0], [5, 6, 7, 8, 9]] = Inr out \<and>
      has_shape out 2 3)"
proof -
  let ?x = "[[5, 6, 7, 0, 0], [5, 6, 7, 8, 9 :: int]]"
  have pos: "0 < (5::nat)" by simp
  have p: "padding_id (example_config 1 1) = 0" and t: "tag_dim (example_config 1 1) = 3"
    by (simp_all add: example_config_def)
  from LSTMModel_forward_gather [OF example_LSTMModel_init valid_batch_scenario [of 1 1] pos]
  obtain e h sel out
    where e: "Embedding_forward (lm_embedding example_LSTMModel) ?x = Inr e"
      and h: "LSTMLayer_forward (lm_lstm example_LSTMModel) e = Inr h"
      and s: "LSTMModel_select example_LSTMModel ?x = Inr sel"
      and o: "LSTMModel_forward example_LSTMModel ?x = Inr out"
      and os: "has_shape out 2 (tag_dim (example_config 1 1))"
      and pad: "\<forall>i toks k. i < 2 \<and> ?x ! i = toks @ replicate k (padding_id (example_config 1 1)) \<and>
                  toks \<noteq> [] \<and> padding_id (example_config 1 1) \<notin> set toks \<longrightarrow>
                  cal_seq_len ?x (int 5) (padding_id (example_config 1 1)) ! i = int (length toks) \<and>
                  sel ! i = h ! i ! (length toks - 1) \<and>
                  ?x ! i ! (length toks - 1) \<noteq> padding_id (example_config 1 1) \<and>
                  (\<forall>t. length toks \<le> t \<and> t < 5 \<longrightarrow> ?x ! i ! t = padding_id (example_config 1 1))"
    by blast
  have "(0::nat) < 2 \<and> ?x ! 0 = [5, 6, 7] @ replicate (Suc (Suc 0)) (padding_id (example_config 1 1)) \<and>
        [5, 6, 7 :: int] \<noteq> [] \<and> padding_id (example_config 1 1) \<notin> set [5, 6, 7]"
    by (simp add: example_config_def)
  with pad have "sel ! 0 = h ! 0 ! (length [5, 6, 7 :: int] - 1)" by blast
  moreover have "length [5, 6, 7 :: int] - 1 = 2" by simp
  ultimately have s0: "sel ! 0 = h ! 0 ! 2" by (simp only:)
  from os have os': "has_shape out 2 3" by (simp only: t)
  show ?thesis
  proof (intro conjI exI)
    show "LSTMModel_init (example_config 1 1) example_LSTMModel" by (rule example_LSTMModel_init)
    show "valid_batch (example_config 1 1) ?x 2 5" by (rule valid_batch_scenario)
    show "Embedding_forward (lm_embedding example_LSTMModel) ?x = Inr e" by (rule e)
    show "LSTMLayer_forward (lm_lstm example_LSTMModel) e = Inr h" by (rule h)
    show "LSTMModel_select example_LSTMModel ?x = Inr sel" by (rule s)
    show "sel ! 0 = h ! 0 ! 2" by (rule s0)
    show "LSTMModel_forward example_LSTMModel ?x = Inr out" by (rule o)
    show "has_shape out 2 3" by (rule os')
  qed
qed

theorem LSTMModel_forward_gather_counterexample:
  "LSTMModel_init (example_config 1 1) example_LSTMModel \<and>
   valid_batch (example_config 1 1) [[0, 0]] 1 2 \<and>
   cal_seq_len [[0, 0]] 2 (lm_padding_id example_LSTMModel) = [0] \<and>
   Embedding_forward (lm_embedding example_LSTMModel) [[0, 0]] = Inr [[[0], [0]]] \<and>
   LSTMLayer_forward (lm_lstm example_LSTMModel) [[[0], [0]]] = Inr [[[1], [2]]] \<and>
   LSTMModel_select example_LSTMModel [[0, 0]] = Inr [[2]]"
proof -
  have "valid_batch (example_config 1 1) [[0, 0]] 1 2"
    by (simp add: valid_batch_def has_shape_def example_config_def)
  moreover have "cal_seq_len [[0, 0]] 2 (lm_padding_id example_LSTMModel) = [0]"
    by (simp add: cal_seq_len_def example_LSTMModel_def)
  moreover have "Embedding_forward (lm_embedding example_LSTMModel) [[0, 0]] = Inr [[[0], [0]]]"
    by (simp add: Embedding_forward_def Embedding_lookup_def example_embedding_def
        example_LSTMModel_def)
  moreover have "LSTMLayer_forward (lm_lstm example_LSTMModel) [[[0], [0]]] = Inr [[[1], [2]]]"
    by (simp add: LSTMLayer_forward_def LSTMLayer_seq_def example_LSTMModel_def run_layer_def
        example_cell_def)
  moreover have "LSTMModel_select example_LSTMModel [[0, 0]] = Inr [[2]]"
    by (simp add: LSTMModel_select_def Let_def shape0_def shape1_def cal_seq_len_def
        Embedding_forward_def Embedding_lookup_def example_embedding_def
        LSTMLayer_forward_def LSTMLayer_seq_def example_LSTMModel_def run_layer_def
        example_cell_def gather_def arange_def index_seq_def)
  ultimately show ?thesis using example_LSTMModel_init by simp
qed

subsection \<open>C3: padding does not reach the selected state\<close>

text \<open>
  C3. For every non-empty sequence of real tokens and every number of trailing padding
  positions added to it, the vector that LSTMModel selects before the linear head is the
  last state of the encoder run on the tokens alone, without padding; so the selected
  vector is the same for any two padded extensions of the sequence.
\<close>

theorem LSTMModel_padding_invariant:
  assumes "LSTMModel_init c m" and "toks \<noteq> []"
    and "list_all (\<lambda>t. 0 \<le> t \<and> t < int (vocab c)) toks"
    and "padding_id c \<notin> set toks"
    and "0 \<le> padding_id c" and "padding_id c < int (vocab c)"
  shows "\<exists>e h. Embedding_forward (lm_embedding m) [toks] = Inr [e] \<and>
               LSTMLayer_forward (lm_lstm m) [e] = Inr [h] \<and>
               has_shape h (length toks) (hidden_dim c) \<and>
               (\<forall>k. LSTMModel_select m [toks @ replicate k (padding_id c)] = Inr [last h]) \<and>
               (\<forall>k1 k2. LSTMModel_select m [toks @ replicate k1 (padding_id c)] =
                         LSTMModel_select m [toks @ replicate k2 (padding_id c)])"
proof -
  let ?g = "\<lambda>t. emb_weight (lm_embedding m) ! nat t"
  let ?enc = "\<lambda>s. foldl (run_layer (hidden_dim c) False) s (lstm_cells (lm_lstm m))"
  from assms(1) have emb: "Embedding_init (vocab c) (embed_dim c) (padding_id c) (lm_embedding m)"
    and lstm: "LSTMLayer_init (embed_dim c) (hidden_dim c) (n_layer c) False (lm_lstm m)"
    by (simp_all add: LSTMModel_init_def)
  from assms(3) have vb: "valid_batch c [toks] 1 (length toks)"
    by (simp add: valid_batch_def has_shape_def)
  have e: "Embedding_forward (lm_embedding m) [toks] = Inr [map ?g toks]"
    by (rule Embedding_forward_single [OF emb assms(3)])
  from Embedding_forward_ok [OF emb vb] e
  have es: "has_shape3 [map ?g toks] 1 (length toks) (embed_dim c)" by simp
  from LSTMLayer_forward_ok [OF lstm es]
  have h: "LSTMLayer_forward (lm_lstm m) [map ?g toks] = Inr [?enc (map ?g toks)]"
    and hs: "has_shape (?enc (map ?g toks)) (length toks) (hidden_dim c)"
    by (simp_all add: has_shape3_def)
  have sel: "LSTMModel_select m [toks @ replicate k (padding_id c)] =
               Inr [last (?enc (map ?g toks))]" for k
    by (rule LSTMModel_select_padded [OF assms])
  show ?thesis
  proof (intro exI conjI allI)
    show "Embedding_forward (lm_embedding m) [toks] = Inr [map ?g toks]" by (rule e)
    show "LSTMLayer_forward (lm_lstm m) [map ?g toks] = Inr [?enc (map ?g toks)]" by (rule h)
    show "has_shape (?enc (map ?g toks)) (length toks) (hidden_dim c)" by (rule hs)
    show "LSTMModel_select m [toks @ replicate k (padding_id c)] =
            Inr [last (?enc (map ?g toks))]" for k by (rule sel)
    show "LSTMModel_select m [toks @ replicate k1 (padding_id c)] =
          LSTMModel_select m [toks @ replicate k2 (padding_id c)]" for k1 k2
      by (simp only: sel)
  qed
qed

theorem LSTMModel_padding_invariant_witness:
  "LSTMModel_init (example_config 1 1) example_LSTMModel \<and>
   list_all (\<lambda>t. 0 \<le> t \<and> t < int (vocab (example_config 1 1))) [5, 6, 7] \<and>
   padding_id (example_config 1 1) \<notin> set [5, 6, 7] \<and>
   LSTMLayer_forward (lm_lstm example_LSTMModel) [[[5], [6], [7]]] = Inr [[[6], [13], [21]]] \<and>
   LSTMModel_select example_LSTMModel [[5, 6, 7, 0, 0]] = Inr [[21]] \<and>
   LSTMModel_select example_LSTMModel [[5, 6, 7]] = Inr [[21]]"
proof -
  have ne: "[5, 6, 7 :: int] \<noteq> []" by simp
  have ok: "list_all (\<lambda>t. 0 \<le> t \<and> t < int (vocab (example_config 1 1))) [5, 6, 7]"
    and np: "padding_id (example_config 1 1) \<notin> set [5, 6, 7]"
    and p0: "0 \<le> padding_id (example_config 1 1)"
    and p1: "padding_id (example_config 1 1) < int (vocab (example_config 1 1))"
    by (simp_all add: example_config_def)
  have ev: "Embedding_forward (lm_embedding example_LSTMModel) [[5, 6, 7]] = Inr [[[5], [6], [7]]]"
    by (simp add: Embedding_forward_def Embedding_lookup_def example_embedding_def
        example_LSTMModel_def)
  have hv: "LSTMLayer_forward (lm_lstm example_LSTMModel) [[[5], [6], [7]]] =
              Inr [[[6], [13], [21]]]"
    by (simp add: LSTMLayer_forward_def LSTMLayer_seq_def example_LSTMModel_def run_layer_def
        example_cell_def)
  from LSTMModel_padding_invariant [OF example_LSTMModel_init ne ok np p0 p1]
  obtain e h where e: "Embedding_forward (lm_embedding example_LSTMModel) [[5, 6, 7]] = Inr [e]"
    and h: "LSTMLayer_forward (lm_lstm example_LSTMModel) [e] = Inr [h]"
    and sel: "\<forall>k. LSTMModel_select example_LSTMModel
                [[5, 6, 7] @ replicate k (padding_id (example_config 1 1))] = Inr [last h]"
    by blast
  from e ev have "e = [[5], [6], [7]]" by simp
  with h hv have "h = [[6], [13], [21]]" by simp
  then have l: "last h = [21]" by simp
  from sel have "LSTMModel_select example_LSTMModel
                   [[5, 6, 7] @ replicate (Suc (Suc 0)) (padding_id (example_config 1 1))] =
                 Inr [last h]" by (rule spec)
  then have s2: "LSTMModel_select example_LSTMModel [[5, 6, 7, 0, 0]] = Inr [[21]]"
    by (simp add: example_config_def l)
  from sel have "LSTMModel_select example_LSTMModel
                   [[5, 6, 7] @ replicate 0 (padding_id (example_config 1 1))] =
                 Inr [last h]" by (rule spec)
  then have s0: "LSTMModel_select example_LSTMModel [[5, 6, 7]] = Inr [[21]]"
    by (simp add: l)
  from example_LSTMModel_init ok np hv s2 s0 show ?thesis by (intro conjI)
qed

subsection \<open>C4: the shortest batch of TextCNNModel\<close>

text \<open>
  C4. TextCNNModel.forward succeeds on every valid batch whose sequences are at least 4
  long, in particular exactly 4, and fails with a size error on every batch (of at least
  one example) whose sequences are shorter, in particular 3 long: the three unpadded
  branches with windows 2, 3, 4 give output lengths len - 1, len - 2, len - 3, and
  window 4 needs an input of length at least 4.
\<close>

theorem TextCNNModel_forward_boundary:
  assumes "TextCNNModel_init c m" and "valid_batch c x batch_size max_seq_len"
  shows "(4 \<le> max_seq_len \<longrightarrow>
            (\<exists>e f1 f2 f3 out.
               Embedding_forward (tc_embedding m) x = Inr e \<and>
               CNNLayer_forward (tc_conv1 m) e = Inr f1 \<and>
               has_shape3 f1 batch_size (max_seq_len - 1) (hidden_dim c) \<and>
               CNNLayer_forward (tc_conv2 m) e = Inr f2 \<and>
               has_shape3 f2 batch_size (max_seq_len - 2) (hidden_dim c) \<and>
               CNNLayer_forward (tc_conv3 m) e = Inr f3 \<and>
               has_shape3 f3 batch_size (max_seq_len - 3) (hidden_dim c) \<and>
               TextCNNModel_forward m x = Inr out \<and> has_shape out batch_size (tag_dim c))) \<and>
         (max_seq_len < 4 \<and> 0 < batch_size \<longrightarrow> TextCNNModel_forward m x = Inl SizeError)"
proof (intro conjI impI)
  assume len: "4 \<le> max_seq_len"
  from TextCNNModel_branches [OF assms len] TextCNNModel_forward_ok [OF assms len]
  show "\<exists>e f1 f2 f3 out.
          Embedding_forward (tc_embedding m) x = Inr e \<and>
          CNNLayer_forward (tc_conv1 m) e = Inr f1 \<and>
          has_shape3 f1 batch_size (max_seq_len - 1) (hidden_dim c) \<and>
          CNNLayer_forward (tc_conv2 m) e = Inr f2 \<and>
          has_shape3 f2 batch_size (max_seq_len - 2) (hidden_dim c) \<and>
          CNNLayer_forward (tc_conv3 m) e = Inr f3 \<and>
          has_shape3 f3 batch_size (max_seq_len - 3) (hidden_dim c) \<and>
          TextCNNModel_forward m x = Inr out \<and> has_shape out batch_size (tag_dim c)"
    by blast
next
  assume "max_seq_len < 4 \<and> 0 < batch_size"
  then show "TextCNNModel_forward m x = Inl SizeError"
    using TextCNNModel_forward_small [OF assms] by blast
qed

theorem TextCNNModel_forward_boundary_witness:
  "TextCNNModel_init (example_config 8 16) example_TextCNNModel \<and>
   valid_batch (example_config 8 16) [[5, 6, 7]] 1 3 \<and>
   valid_batch (example_config 8 16) [[5, 6, 7, 8]] 1 4 \<and>
   TextCNNModel_forward example_TextCNNModel [[5, 6, 7]] = Inl SizeError \<and>
   (\<exists>out. TextCNNModel_forward example_TextCNNModel [[5, 6, 7, 8]] = Inr out \<and>
      has_shape out 1 (tag_dim (example_config 8 16)))"
proof -
  have v3: "valid_batch (example_config 8 16) [[5, 6, 7]] 1 3"
    and v4: "valid_batch (example_config 8 16) [[5, 6, 7, 8]] 1 4"
    by (simp_all add: valid_batch_def has_shape_def example_config_def)
  from TextCNNModel_forward_boundary [OF example_TextCNNModel_init v3]
  have "TextCNNModel_forward example_TextCNNModel [[5, 6, 7]] = Inl SizeError" by simp
  moreover from TextCNNModel_forward_boundary [OF example_TextCNNModel_init v4]
  have "\<exists>out. TextCNNModel_forward example_TextCNNModel [[5, 6, 7, 8]] = Inr out \<and>
          has_shape out 1 (tag_dim (example_config 8 16))" by auto
  ultimately show ?thesis using example_TextCNNModel_init v3 v4 by blast
qed

subsection \<open>C5: the sequence-length calculator\<close>

text \<open>
  C5. For a batch of shape (batch_size, max_seq_len), the sequence-length calculator
  returns for every row exactly \<open>max_seq_len\<close> minus the number of positions that hold
  the padding id, one length per row, and every length lies between 0 and
  \<open>max_seq_len\<close>.
\<close>

theorem cal_seq_len_count:
  assumes "has_shape x batch_size max_seq_len"
  shows "cal_seq_len x (int max_seq_len) p =
           map (\<lambda>row. int max_seq_len - int (count_list row p)) x \<and>
         length (cal_seq_len x (int max_seq_len) p) = batch_size \<and>
         (\<forall>n \<in> set (cal_seq_len x (int max_seq_len) p). 0 \<le> n \<and> n \<le> int max_seq_len)"
proof (intro conjI ballI)
  show "cal_seq_len x (int max_seq_len) p =
           map (\<lambda>row. int max_seq_len - int (count_list row p)) x"
    by (simp add: cal_seq_len_def filter_eq_count)
  show "length (cal_seq_len x (int max_seq_len) p) = batch_size"
    using assms by (simp add: cal_seq_len_def has_shape_def)
next
  fix n assume "n \<in> set (cal_seq_len x (int max_seq_len) p)"
  then obtain row where r: "row \<in> set x" and n: "n = int max_seq_len - int (length (filter (\<lambda>t. t = p) row))"
    by (auto simp: cal_seq_len_def)
  from r assms have "length row = max_seq_len"
    by (simp add: has_shape_def list_all_iff)
  moreover have "length (filter (\<lambda>t. t = p) row) \<le> length row"
    by (rule length_filter_le)
  ultimately show "0 \<le> n" and "n \<le> int max_seq_len" using n by simp_all
qed

theorem cal_seq_len_count_witness:
  "has_shape [[5, 6, 7, 0, 0], [5, 6, 7, 8, 9 :: int]] 2 5 \<and>
   cal_seq_len [[5, 6, 7, 0, 0], [5, 6, 7, 8, 9]] (int 5) 0 = [3, 5] \<and>
   list_all (\<lambda>n. 0 \<le> n \<and> n \<le> int 5)
     (cal_seq_len [[5, 6, 7, 0, 0], [5, 6, 7, 8, 9]] (int 5) 0)"
proof -
  have h: "has_shape [[5, 6, 7, 0, 0], [5, 6, 7, 8, 9 :: int]] 2 5"
    by (simp add: has_shape_def)
  have "cal_seq_len [[5, 6, 7, 0, 0], [5, 6, 7, 8, 9]] (int 5) 0 = [3, 5]"
    using cal_seq_len_count [OF h, of 0] by simp
  with h cal_seq_len_count [OF h, of 0] show ?thesis by (simp add: list_all_iff)
qed

subsection \<open>C6: an example made of padding only\<close>

text \<open>
  C6, as the code has it. When an example of a valid batch consists entirely of padding,
  its computed length is zero and the gather index is -1, which indexing accepts as the
  last position: the forward pass returns, having selected for that example the hidden
  state at the last padded position \<open>max_seq_len - 1\<close>. No failure reaches the caller.
\<close>

theorem LSTMModel_all_padding:
  assumes "LSTMModel_init c m" and "valid_batch c x batch_size max_seq_len"
    and "0 < max_seq_len" and "i < batch_size"
    and "list_all (\<lambda>t. t = padding_id c) (x ! i)"
  shows "cal_seq_len x (int max_seq_len) (padding_id c) ! i = 0 \<and>
         (\<exists>e h sel out.
            Embedding_forward (lm_embedding m) x = Inr e \<and>
            LSTMLayer_forward (lm_lstm m) e = Inr h \<and>
            index_seq (h ! i) (cal_seq_len x (int max_seq_len) (padding_id c) ! i - 1) =
              Inr (h ! i ! (max_seq_len - 1)) \<and>
            LSTMModel_select m x = Inr sel \<and>
            sel ! i = h ! i ! (max_seq_len - 1) \<and>
            LSTMModel_forward m x = Inr out \<and> has_shape out batch_size (tag_dim c))"
proof -
  let ?lens = "cal_seq_len x (int max_seq_len) (padding_id c)"
  from assms(2,4) have lx: "i < length x" and row: "length (x ! i) = max_seq_len"
    by (simp_all add: valid_batch_def has_shape_def list_all_length)
  from assms(5) have "filter (\<lambda>t. t = padding_id c) (x ! i) = x ! i"
    by (simp add: list_all_iff)
  with lx row have zero: "?lens ! i = 0" by (simp add: cal_seq_len_nth)
  from assms(3) have m1: "nat ((0 - 1) mod int max_seq_len) = max_seq_len - 1"
    by (simp add: zmod_minus1 nat_diff_distrib')
  from LSTMModel_gather [OF assms(1-3)] obtain e h sel out
    where e: "Embedding_forward (lm_embedding m) x = Inr e"
      and h: "LSTMLayer_forward (lm_lstm m) e = Inr h"
      and hs: "has_shape3 h batch_size max_seq_len (hidden_dim c)"
      and s: "LSTMModel_select m x = Inr sel"
      and sel: "sel = map (\<lambda>i. h ! i ! nat ((?lens ! i - 1) mod int max_seq_len)) [0..<batch_size]"
      and out: "LSTMModel_forward m x = Inr out" "has_shape out batch_size (tag_dim c)"
    by blast
  from sel assms(4) zero m1 have si: "sel ! i = h ! i ! (max_seq_len - 1)" by simp
  from hs assms(4) have lh: "length (h ! i) = max_seq_len"
    by (simp add: has_shape3_def has_shape_def list_all_length)
  with assms(3) have pos: "0 < length (h ! i)" by simp
  have "index_seq (h ! i) (- 1) = Inr (h ! i ! nat ((- 1) mod int (length (h ! i))))"
    using index_seq_mod [OF pos, of "- 1"] by simp
  with lh m1 zero have ix: "index_seq (h ! i) (?lens ! i - 1) = Inr (h ! i ! (max_seq_len - 1))"
    by simp
  show ?thesis
  proof (intro conjI exI)
    show "?lens ! i = 0" by (rule zero)
    show "Embedding_forward (lm_embedding m) x = Inr e" by (rule e)
    show "LSTMLayer_forward (lm_lstm m) e = Inr h" by (rule h)
    show "index_seq (h ! i) (?lens ! i - 1) = Inr (h ! i ! (max_seq_len - 1))" by (rule ix)
    show "LSTMModel_select m x = Inr sel" by (rule s)
    show "sel ! i = h ! i ! (max_seq_len - 1)" by (rule si)
    show "LSTMModel_forward m x = Inr out" by (rule out(1))
    show "has_shape out batch_size (tag_dim c)" by (rule out(2))
  qed
qed

theorem LSTMModel_all_padding_witness:
  "LSTMModel_init (example_config 1 1) example_LSTMModel \<and>
   valid_batch (example_config 1 1) [[5, 6, 7], [0, 0, 0]] 2 3 \<and>
   list_all (\<lambda>t. t = padding_id (example_config 1 1)) ([[5, 6, 7], [0, 0, 0]] ! 1) \<and>
   cal_seq_len [[5, 6, 7], [0, 0, 0]] (int 3) (padding_id (example_config 1 1)) ! 1 = 0 \<and>
   (\<exists>e h sel out.
      Embedding_forward (lm_embedding example_LSTMModel) [[5, 6, 7], [0, 0, 0]] = Inr e \<and>
      LSTMLayer_forward (lm_lstm example_LSTMModel) e = Inr h \<and>
      LSTMModel_select example_LSTMModel [[5, 6, 7], [0, 0, 0]] = Inr sel \<and>
      sel ! 1 = h ! 1 ! (3 - 1) \<and>
      LSTMModel_forward example_LSTMModel [[5, 6, 7], [0, 0, 0]] = Inr out \<and>
      has_shape out 2 (tag_dim (example_config 1 1)))"
proof -
  let ?x = "[[5, 6, 7], [0, 0, 0 :: int]]"
  have v: "valid_batch (example_config 1 1) ?x 2 3"
    by (simp add: valid_batch_def has_shape_def example_config_def)
  have pos: "0 < (3::nat)" and i: "(1::nat) < 2" by simp_all
  have pad: "list_all (\<lambda>t. t = padding_id (example_config 1 1)) (?x ! 1)"
    by (simp add: example_config_def)
  from LSTMModel_all_padding [OF example_LSTMModel_init v pos i pad]
  have z: "cal_seq_len ?x (int 3) (padding_id (example_config 1 1)) ! 1 = 0"
    and ex: "\<exists>e h sel out.
      Embedding_forward (lm_embedding example_LSTMModel) ?x = Inr e \<and>
      LSTMLayer_forward (lm_lstm example_LSTMModel) e = Inr h \<and>
      index_seq (h ! 1) (cal_seq_len ?x (int 3) (padding_id (example_config 1 1)) ! 1 - 1) =
        Inr (h ! 1 ! (3 - 1)) \<and>
      LSTMModel_select example_LSTMModel ?x = Inr sel \<and>
      sel ! 1 = h ! 1 ! (3 - 1) \<and>
      LSTMModel_forward example_LSTMModel ?x = Inr out \<and>
      has_shape out 2 (tag_dim (example_config 1 1))"
    by (rule conjunct1, rule conjunct2)
  from ex obtain e h sel out
    where e: "Embedding_forward (lm_embedding example_LSTMModel) ?x = Inr e"
      and h: "LSTMLayer_forward (lm_lstm example_LSTMModel) e = Inr h"
      and s: "LSTMModel_select example_LSTMModel ?x = Inr sel"
      and si: "sel ! 1 = h ! 1 ! (3 - 1)"
      and o: "LSTMModel_forward example_LSTMModel ?x = Inr out"
      and os: "has_shape out 2 (tag_dim (example_config 1 1))"
    by blast
  show ?thesis
  proof (intro conjI exI)
    show "LSTMModel_init (example_config 1 1) example_LSTMModel" by (rule example_LSTMModel_init)
    show "valid_batch (example_config 1 1) ?x 2 3" by (rule v)
    show "list_all (\<lambda>t. t = padding_id (example_config 1 1)) (?x ! 1)" by (rule pad)
    show "cal_seq_len ?x (int 3) (padding_id (example_config 1 1)) ! 1 = 0" by (rule z)
    show "Embedding_forward (lm_embedding example_LSTMModel) ?x = Inr e" by (rule e)
    show "LSTMLayer_forward (lm_lstm example_LSTMModel) e = Inr h" by (rule h)
    show "LSTMModel_select example_LSTMModel ?x = Inr sel" by (rule s)
    show "sel ! 1 = h ! 1 ! (3 - 1)" by (rule si)
    show "LSTMModel_forward example_LSTMModel ?x = Inr out" by (rule o)
    show "has_shape out 2 (tag_dim (example_config 1 1))" by (rule os)
  qed
qed

theorem LSTMModel_all_padding_counterexample:
  "LSTMModel_init (example_config 1 1) example_LSTMModel \<and>
   valid_batch (example_config 1 1) [[0, 0]] 1 2 \<and>
   cal_seq_len [[0, 0]] 2 (lm_padding_id example_LSTMModel) = [0] \<and>
   index_seq [[1], [2 :: real]] (0 - 1) = Inr [2] \<and>
   LSTMModel_forward example_LSTMModel [[0, 0]] = Inr [[2, 2, 2]]"
proof -
  have "valid_batch (example_config 1 1) [[0, 0]] 1 2"
    by (simp add: valid_batch_def has_shape_def example_config_def)
  moreover have "cal_seq_len [[0, 0]] 2 (lm_padding_id example_LSTMModel) = [0]"
    by (simp add: cal_seq_len_def example_LSTMModel_def)
  moreover have "index_seq [[1], [2 :: real]] (0 - 1) = Inr [2]"
    by (simp add: index_seq_def)
  moreover have "LSTMModel_forward example_LSTMModel [[0, 0]] = Inr [[2, 2, 2]]"
  proof -
    have sel: "LSTMModel_select example_LSTMModel [[0, 0]] = Inr [[2]]"
      by (simp add: LSTMModel_select_def Let_def shape0_def shape1_def cal_seq_len_def
          Embedding_forward_def Embedding_lookup_def example_embedding_def
          LSTMLayer_forward_def LSTMLayer_seq_def example_LSTMModel_def run_layer_def
          example_cell_def gather_def arange_def index_seq_def)
    have "lm_linear example_LSTMModel = example_linear 1 3"
      by (simp add: example_LSTMModel_def)
    then show ?thesis
      by (simp add: LSTMModel_forward_def sel Linear_forward_def Linear_vec_def
          example_linear_def dot_def numeral_3_eq_3)
  qed
  ultimately show ?thesis using example_LSTMModel_init by simp
qed

subsection \<open>C7: the computation of RCNNModel\<close>

text \<open>
  C7. For every valid batch with at least one position, and an even \<open>embed_dim\<close> (the
  source supposes the width of the bidirectional layer to be that of the embeddings),
  RCNNModel.forward concatenates the raw embeddings with the bidirectional context along
  the feature axis, to the width \<open>2 * embed_dim\<close>, applies the encoder's linear layer and
  tanh to obtain \<open>hidden_dim\<close> features, takes for each feature the maximum over all
  \<open>max_seq_len\<close> positions of the sequence, padded ones included, and applies the
  linear head.
\<close>

theorem RCNNModel_forward_structure:
  assumes "RCNNModel_init c m" and "valid_batch c x batch_size max_seq_len"
    and "even (embed_dim c)" and "0 < max_seq_len"
  shows "\<exists>word context h pooled out.
           Embedding_forward (rc_embedding m) x = Inr word \<and>
           has_shape3 word batch_size max_seq_len (embed_dim c) \<and>
           LSTMLayer_forward (rc_bilstm m) word = Inr context \<and>
           has_shape3 context batch_size max_seq_len (embed_dim c) \<and>
           torch_cat word context = Inr (map2 (map2 (@)) word context) \<and>
           has_shape3 (map2 (map2 (@)) word context) batch_size max_seq_len (2 * embed_dim c) \<and>
           Linear_forward3 (rc_encoder m) (map2 (map2 (@)) word context) = Inr h \<and>
           has_shape3 h batch_size max_seq_len (hidden_dim c) \<and>
           torch_max (tanh3 h) = Inr pooled \<and>
           pooled = map (\<lambda>s. map (\<lambda>j. Max ((\<lambda>t. tanh (s ! t ! j)) ` {..<max_seq_len}))
                                 [0..<hidden_dim c]) h \<and>
           (\<forall>i t j. i < batch_size \<and> t < max_seq_len \<and> j < hidden_dim c \<longrightarrow>
              tanh (h ! i ! t ! j) \<le> pooled ! i ! j) \<and>
           RCNNModel_forward m x = Linear_forward (rc_linear m) pooled \<and>
           RCNNModel_forward m x = Inr out \<and> has_shape out batch_size (tag_dim c)"
proof -
  let ?pool = "\<lambda>h. map (\<lambda>s. map (\<lambda>j. Max ((\<lambda>t. tanh (s ! t ! j)) ` {..<max_seq_len}))
                                 [0..<hidden_dim c]) h"
  from RCNNModel_forward_even [OF assms] obtain word ctx h out
    where w: "Embedding_forward (rc_embedding m) x = Inr word"
      and ws: "has_shape3 word batch_size max_seq_len (embed_dim c)"
      and k: "LSTMLayer_forward (rc_bilstm m) word = Inr ctx"
      and ks: "has_shape3 ctx batch_size max_seq_len (embed_dim c)"
      and cat: "torch_cat word ctx = Inr (map2 (map2 (@)) word ctx)"
      and cs: "has_shape3 (map2 (map2 (@)) word ctx) batch_size max_seq_len (2 * embed_dim c)"
      and h: "Linear_forward3 (rc_encoder m) (map2 (map2 (@)) word ctx) = Inr h"
      and hs: "has_shape3 h batch_size max_seq_len (hidden_dim c)"
      and p: "torch_max (tanh3 h) = Inr (?pool h)"
      and fw: "RCNNModel_forward m x = Linear_forward (rc_linear m) (?pool h)"
      and out: "RCNNModel_forward m x = Inr out" "has_shape out batch_size (tag_dim c)"
    by blast
  from hs have lh: "length h = batch_size" by (simp add: has_shape3_def)
  have ge: "tanh (h ! i ! t ! j) \<le> ?pool h ! i ! j"
    if "i < batch_size \<and> t < max_seq_len \<and> j < hidden_dim c" for i t j
  proof -
    from that have i: "i < batch_size" and t: "t < max_seq_len" and j: "j < hidden_dim c"
      by simp_all
    from i j lh have "?pool h ! i ! j = Max ((\<lambda>t. tanh (h ! i ! t ! j)) ` {..<max_seq_len})"
      by simp
    moreover from t have "tanh (h ! i ! t ! j) \<in> (\<lambda>t. tanh (h ! i ! t ! j)) ` {..<max_seq_len}"
      by blast
    then have "tanh (h ! i ! t ! j) \<le> Max ((\<lambda>t. tanh (h ! i ! t ! j)) ` {..<max_seq_len})"
      by (intro Max_ge) simp_all
    ultimately show ?thesis by (simp only:)
  qed
  show ?thesis
  proof (intro exI conjI allI impI)
    show "Embedding_forward (rc_embedding m) x = Inr word" by (rule w)
    show "has_shape3 word batch_size max_seq_len (embed_dim c)" by (rule ws)
    show "LSTMLayer_forward (rc_bilstm m) word = Inr ctx" by (rule k)
    show "has_shape3 ctx batch_size max_seq_len (embed_dim c)" by (rule ks)
    show "torch_cat word ctx = Inr (map2 (map2 (@)) word ctx)" by (rule cat)
    show "has_shape3 (map2 (map2 (@)) word ctx) batch_size max_seq_len (2 * embed_dim c)"
      by (rule cs)
    show "Linear_forward3 (rc_encoder m) (map2 (map2 (@)) word ctx) = Inr h" by (rule h)
    show "has_shape3 h batch_size max_seq_len (hidden_dim c)" by (rule hs)
    show "torch_max (tanh3 h) = Inr (?pool h)" by (rule p)
    show "?pool h = ?pool h" by (rule refl)
    show "RCNNModel_forward m x = Linear_forward (rc_linear m) (?pool h)" by (rule fw)
    show "RCNNModel_forward m x = Inr out" by (rule out(1))
    show "has_shape out batch_size (tag_dim c)" by (rule out(2))
  next
    fix i t j assume "i < batch_size \<and> t < max_seq_len \<and> j < hidden_dim c"
    then show "tanh (h ! i ! t ! j) \<le> ?pool h ! i ! j" by (rule ge)
  qed
qed

theorem RCNNModel_forward_structure_witness:
  "RCNNModel_init (example_config 2 1) (example_RCNNModel 2) \<and>
   valid_batch (example_config 2 1) [[5, 6, 7, 0, 0], [5, 6, 7, 8, 9]] 2 5 \<and>
   even (embed_dim (example_config 2 1)) \<and>
   (\<exists>word context h pooled out.
      Embedding_forward (rc_embedding (example_RCNNModel 2)) [[5, 6, 7, 0, 0], [5, 6, 7, 8, 9]] =
        Inr word \<and>
      LSTMLayer_forward (rc_bilstm (example_RCNNModel 2)) word = Inr context \<and>
      has_shape3 (map2 (map2 (@)) word context) 2 5 (2 * embed_dim (example_config 2 1)) \<and>
      Linear_forward3 (rc_encoder (example_RCNNModel 2)) (map2 (map2 (@)) word context) = Inr h \<and>
      torch_max (tanh3 h) = Inr pooled \<and>
      tanh (h ! 0 ! 4 ! 0) \<le> pooled ! 0 ! 0 \<and>
      RCNNModel_forward (example_RCNNModel 2) [[5, 6, 7, 0, 0], [5, 6, 7, 8, 9]] =
        Linear_forward (rc_linear (example_RCNNModel 2)) pooled \<and>
      RCNNModel_forward (example_RCNNModel 2) [[5, 6, 7, 0, 0], [5, 6, 7, 8, 9]] = Inr out \<and>
      has_shape out 2 (tag_dim (example_config 2 1)))"
proof -
  let ?x = "[[5, 6, 7, 0, 0], [5, 6, 7, 8, 9 :: int]]"
  let ?c = "example_config 2 1"
  let ?m = "example_RCNNModel 2"
  have ev: "even (embed_dim ?c)" by (simp add: example_config_def)
  have pos: "0 < (5::nat)" by simp
  from RCNNModel_forward_structure [OF example_RCNNModel_init [of 2] valid_batch_scenario [of 2 1] ev pos]
  obtain word ctx h pooled out
    where w: "Embedding_forward (rc_embedding ?m) ?x = Inr word"
      and k: "LSTMLayer_forward (rc_bilstm ?m) word = Inr ctx"
      and cs: "has_shape3 (map2 (map2 (@)) word ctx) 2 5 (2 * embed_dim ?c)"
      and h: "Linear_forward3 (rc_encoder ?m) (map2 (map2 (@)) word ctx) = Inr h"
      and p: "torch_max (tanh3 h) = Inr pooled"
      and ge: "\<forall>i t j. i < 2 \<and> t < 5 \<and> j < hidden_dim ?c \<longrightarrow> tanh (h ! i ! t ! j) \<le> pooled ! i ! j"
      and fw: "RCNNModel_forward ?m ?x = Linear_forward (rc_linear ?m) pooled"
      and out: "RCNNModel_forward ?m ?x = Inr out" "has_shape out 2 (tag_dim ?c)"
    by blast
  have "(0::nat) < 2 \<and> (4::nat) < 5 \<and> (0::nat) < hidden_dim ?c"
    by (simp add: example_config_def)
  with ge have g: "tanh (h ! 0 ! 4 ! 0) \<le> pooled ! 0 ! 0" by blast
  show ?thesis
  proof (intro conjI exI)
    show "RCNNModel_init ?c ?m" by (rule example_RCNNModel_init)
    show "valid_batch ?c ?x 2 5" by (rule valid_batch_scenario)
    show "even (embed_dim ?c)" by (rule ev)
    show "Embedding_forward (rc_embedding ?m) ?x = Inr word" by (rule w)
    show "LSTMLayer_forward (rc_bilstm ?m) word = Inr ctx" by (rule k)
    show "has_shape3 (map2 (map2 (@)) word ctx) 2 5 (2 * embed_dim ?c)" by (rule cs)
    show "Linear_forward3 (rc_encoder ?m) (map2 (map2 (@)) word ctx) = Inr h" by (rule h)
    show "torch_max (tanh3 h) = Inr pooled" by (rule p)
    show "tanh (h ! 0 ! 4 ! 0) \<le> pooled ! 0 ! 0" by (rule g)
    show "RCNNModel_forward ?m ?x = Linear_forward (rc_linear ?m) pooled" by (rule fw)
    show "RCNNModel_forward ?m ?x = Inr out" by (rule out(1))
    show "has_shape out 2 (tag_dim ?c)" by (rule out(2))
  qed
qed

subsection \<open>C8: DPCNNModel without blocks\<close>

text \<open>
  C8. When \<open>n_block = 0\<close>, the output of DPCNNModel equals, for every input batch, the
  result of max-pooling the post-residual sum
  conv2(relu(conv1(relu(region_embedding(emb))))) + region_embedding(emb) over the
  positions and applying the linear head directly: the empty block stack is the identity
  and no downsampling takes place.
\<close>

theorem DPCNNModel_forward_no_block:
  assumes "DPCNNModel_init c m" and "n_block c = 0"
  shows "DPCNNModel_forward m x = DPCNN_no_block_spec m x"
proof -
  from assms have "dp_blocks m = []" by (simp add: DPCNNModel_no_blocks)
  then show ?thesis
    by (simp add: DPCNNModel_forward_def DPCNN_no_block_spec_def Sequential_forward_Nil)
qed

theorem DPCNNModel_forward_no_block_witness:
  "DPCNNModel_init (example_config 1 1) example_DPCNNModel \<and>
   n_block (example_config 1 1) = 0 \<and>
   DPCNNModel_forward example_DPCNNModel [[5, 6, 7, 0, 0], [5, 6, 7, 8, 9]] =
     DPCNN_no_block_spec example_DPCNNModel [[5, 6, 7, 0, 0], [5, 6, 7, 8, 9]]"
proof -
  have n: "n_block (example_config 1 1) = 0" by (simp add: example_config_def)
  from DPCNNModel_forward_no_block [OF example_DPCNNModel_init n] example_DPCNNModel_init n
  show ?thesis by simp
qed

subsection \<open>C10: the parity of embed_dim in RCNNModel\<close>

text \<open>
  C10. RCNNModel builds its bidirectional layer with \<open>embed_dim div 2\<close> units per
  direction, so the context is \<open>2 * (embed_dim div 2)\<close> wide and its concatenation with
  the embeddings \<open>embed_dim + 2 * (embed_dim div 2)\<close> wide, while the encoder expects
  \<open>2 * embed_dim\<close>: on a valid batch with at least one example and one position the
  forward pass returns exactly when \<open>embed_dim\<close> is even, and fails with a shape mismatch
  for every odd \<open>embed_dim\<close>.
\<close>

theorem RCNNModel_forward_parity:
  assumes "RCNNModel_init c m" and "valid_batch c x batch_size max_seq_len"
    and "0 < batch_size" and "0 < max_seq_len"
  shows "lstm_hid (rc_bilstm m) = embed_dim c div 2 \<and>
         lin_in (rc_encoder m) = 2 * embed_dim c \<and>
         (\<exists>word context.
            Embedding_forward (rc_embedding m) x = Inr word \<and>
            LSTMLayer_forward (rc_bilstm m) word = Inr context \<and>
            has_shape3 context batch_size max_seq_len (2 * (embed_dim c div 2)) \<and>
            torch_cat word context = Inr (map2 (map2 (@)) word context) \<and>
            has_shape3 (map2 (map2 (@)) word context) batch_size max_seq_len
              (embed_dim c + 2 * (embed_dim c div 2))) \<and>
         ((\<exists>out. RCNNModel_forward m x = Inr out) \<longleftrightarrow> even (embed_dim c)) \<and>
         (odd (embed_dim c) \<longrightarrow> RCNNModel_forward m x = Inl ShapeError)"
proof -
  from assms(1) have w: "lstm_hid (rc_bilstm m) = embed_dim c div 2"
    "lin_in (rc_encoder m) = 2 * embed_dim c"
    by (simp_all add: RCNNModel_init_def LSTMLayer_init_def Linear_init_def)
  have ctx: "\<exists>word context.
            Embedding_forward (rc_embedding m) x = Inr word \<and>
            LSTMLayer_forward (rc_bilstm m) word = Inr context \<and>
            has_shape3 context batch_size max_seq_len (2 * (embed_dim c div 2)) \<and>
            torch_cat word context = Inr (map2 (map2 (@)) word context) \<and>
            has_shape3 (map2 (map2 (@)) word context) batch_size max_seq_len
              (embed_dim c + 2 * (embed_dim c div 2))"
    using RCNNModel_context [OF assms(1,2)] by blast
  have odd: "RCNNModel_forward m x = Inl ShapeError" if "odd (embed_dim c)"
    using RCNNModel_forward_odd [OF assms(1,2) that assms(3,4)] .
  have even: "\<exists>out. RCNNModel_forward m x = Inr out" if "even (embed_dim c)"
    using RCNNModel_forward_even [OF assms(1,2) that assms(4)] by blast
  have "(\<exists>out. RCNNModel_forward m x = Inr out) \<longleftrightarrow> even (embed_dim c)"
  proof
    assume "\<exists>out. RCNNModel_forward m x = Inr out"
    then show "even (embed_dim c)" using odd by (cases "even (embed_dim c)") auto
  next
    assume "even (embed_dim c)"
    then show "\<exists>out. RCNNModel_forward m x = Inr out" by (rule even)
  qed
  with w ctx odd show ?thesis by blast
qed

theorem RCNNModel_forward_parity_witness:
  "RCNNModel_init (example_config 3 1) (example_RCNNModel 3) \<and>
   RCNNModel_init (example_config 2 1) (example_RCNNModel 2) \<and>
   valid_batch (example_config 3 1) [[5, 6, 7, 0, 0], [5, 6, 7, 8, 9]] 2 5 \<and>
   valid_batch (example_config 2 1) [[5, 6, 7, 0, 0], [5, 6, 7, 8, 9]] 2 5 \<and>
   RCNNModel_forward (example_RCNNModel 3) [[5, 6, 7, 0, 0], [5, 6, 7, 8, 9]] = Inl ShapeError \<and>
   (\<exists>out. RCNNModel_forward (example_RCNNModel 2) [[5, 6, 7, 0, 0], [5, 6, 7, 8, 9]] = Inr out)"
proof -
  have e3: "odd (embed_dim (example_config 3 1))"
    and e2: "even (embed_dim (example_config 2 1))"
    by (simp_all add: example_config_def)
  have pos: "0 < (2::nat)" "0 < (5::nat)" by simp_all
  from RCNNModel_forward_parity [OF example_RCNNModel_init [of 3] valid_batch_scenario [of 3 1] pos]
    e3
  have "RCNNModel_forward (example_RCNNModel 3) [[5, 6, 7, 0, 0], [5, 6, 7, 8, 9]] =
          Inl ShapeError"
    by blast
  moreover
  from RCNNModel_forward_parity [OF example_RCNNModel_init [of 2] valid_batch_scenario [of 2 1] pos]
    e2
  have "\<exists>out. RCNNModel_forward (example_RCNNModel 2) [[5, 6, 7, 0, 0], [5, 6, 7, 8, 9]] =
          Inr out"
    by blast
  ultimately show ?thesis
    using example_RCNNModel_init valid_batch_scenario by blast
qed

end
